theory Spec2Isabelle
  imports Main "HOL-Library.Sublist"
begin

section \<open>JavaScript values used by the OpenAI Assistant handler\<close>

text \<open>
  A thrown JavaScript value is either an instance of \<open>Error\<close> carrying a message, or some
  other value; \<open>error instanceof Error\<close> tells them apart.
\<close>

datatype thrown = Error (message: string) | NonError string

abbreviation NL :: string where
  "NL \<equiv> [CHR 0x0A]"

text \<open>\<open>Array.prototype.join\<close>: the elements separated by \<open>sep\<close>.\<close>

fun join :: "string \<Rightarrow> string list \<Rightarrow> string" where
  "join sep [] = []"
| "join sep [x] = x"
| "join sep (x # y # ys) = x @ sep @ join sep (y # ys)"

text \<open>
  \<open>a || b\<close> where \<open>a\<close> is a string that may be undefined: the undefined value and the empty
  string are falsy.
\<close>

fun js_or :: "string option \<Rightarrow> string \<Rightarrow> string" where
  "js_or None d = d"
| "js_or (Some s) d = (if s = [] then d else s)"

section \<open>Remote resources (the response interfaces)\<close>

record ThreadResponse =
  t_id :: string
  t_object :: string
  t_created_at :: int

record MessageResponse =
  m_id :: string
  m_object :: string
  m_thread_id :: string

record FunctionCall =
  fn_name :: string
  fn_arguments :: string

record ToolCall =
  tc_id :: string
  tc_type :: string
  tc_function :: FunctionCall

record SubmitToolOutputs =
  tool_calls :: "ToolCall list"

record RequiredAction =
  ra_type :: string
  submit_tool_outputs :: SubmitToolOutputs

record LastError =
  le_code :: string
  le_message :: string

record RunResponse =
  r_id :: string
  r_object :: string
  status :: string
  r_thread_id :: string
  assistant_id :: string
  required_action :: "RequiredAction option"
  last_error :: "LastError option"

datatype Role = User | Assistant

fun role_text :: "Role \<Rightarrow> string" where
  "role_text User = ''user''"
| "role_text Assistant = ''assistant''"

text \<open>The \<open>annotations: any[]\<close> field of a text part is never read and is left out.\<close>

record ContentText =
  text_value :: string

record ContentPart =
  cp_type :: string
  cp_text :: "ContentText option"

record ThreadMessage =
  tm_id :: string
  tm_object :: string
  tm_role :: Role
  tm_content :: "ContentPart list"

record MessagesListResponse =
  l_object :: string
  l_data :: "ThreadMessage list"

section \<open>The conversation handed to the handler\<close>

text \<open>
  A content block of \<open>Anthropic.Messages.MessageParam\<close>: its \<open>type\<close> tag and the \<open>text\<close>
  property that \<open>(part as any).text\<close> reads (undefined when the block has none).
\<close>

record ContentBlockParam =
  bp_type :: string
  bp_text :: "string option"

text \<open>
  \<open>content\<close> is declared \<open>string | Array\<close>; \<open>OtherContent\<close> stands for a run-time value that
  is neither, which the last \<open>return ""\<close> of the flattener handles.
\<close>

datatype MessageContent =
    StringContent string
  | ArrayContent "ContentBlockParam list"
  | OtherContent

record MessageParam =
  role :: Role
  content :: MessageContent

section \<open>Requests, events and the transport\<close>

datatype Method = GET | POST

record ToolOutput =
  tool_call_id :: string
  tool_output :: string

text \<open>The request bodies the handler builds; \<open>NoData\<close> is the omitted \<open>data\<close> argument.\<close>

datatype RequestData =
    NoData
  | EmptyObject
  | MessageData string string
  | RunData string
  | ToolOutputsData "ToolOutput list"

record AxiosRequest =
  req_method :: Method
  req_url :: string
  req_headers :: "(string \<times> string) list"
  req_data :: RequestData
  req_timeout :: nat

datatype ApiStreamChunk =
    TextChunk string
  | UsageChunk (inputTokens: nat) (outputTokens: nat)

text \<open>
  What an invocation does to the outside world, in order: HTTP requests, timed waits
  (milliseconds) and the chunks the generator yields. Console output is not modelled.
\<close>

datatype Event = Request AxiosRequest | Sleep nat | Yield ApiStreamChunk

text \<open>
  What \<open>axios\<close> rejects with: an \<open>AxiosError\<close> (with the HTTP response when one arrived:
  its status and \<open>data.error.message\<close> when present, and the error's own message), or
  any other thrown value.
\<close>

record AxiosErrorResponse =
  err_status :: nat
  err_data_message :: "string option"

datatype AxiosFailure =
    AxiosError "AxiosErrorResponse option" string
  | OtherFailure thrown

text \<open>
  The remote service, as seen through \<open>axios\<close>: the outcome of a request is a function
  of everything the handler has done so far, the request itself being the last event.
  \<open>makeApiCall<T>\<close> casts the response body to \<open>T\<close>; the service is given at each of the
  response types the call sites name.
\<close>

type_synonym 'a axios = "Event list \<Rightarrow> AxiosFailure + 'a"

record Axios =
  axiosThread :: "ThreadResponse axios"
  axiosMessage :: "MessageResponse axios"
  axiosRun :: "RunResponse axios"
  axiosMessagesList :: "MessagesListResponse axios"
  axiosAny :: "unit axios"

section \<open>The handler\<close>

record ApiHandlerOptions =
  openAiAssistantBaseUrl :: "string option"
  openAiAssistantApiKey :: "string option"
  openAiAssistantId :: "string option"

record OpenAiAssistantHandler =
  options :: ApiHandlerOptions
  baseURL :: string
  apiKey :: string
  assistantId :: string
  headers :: "(string \<times> string) list"
  timeout :: nat

definition providerName :: string where
  "providerName = ''OpenAI Assistant''"

text \<open>An object literal keeps the position of a key that is set again.\<close>

fun set_header :: "string \<Rightarrow> string \<Rightarrow> (string \<times> string) list \<Rightarrow> (string \<times> string) list" where
  "set_header k v [] = [(k, v)]"
| "set_header k v ((k', v') # hs) =
     (if k' = k then (k, v) # hs else (k', v') # set_header k v hs)"

text \<open>
  The constructor. \<open>DEFAULT_HEADERS\<close> and the value of \<open>getApiRequestTimeout()\<close> come from
  modules outside this file and are parameters.
\<close>

definition mkHandler ::
  "(string \<times> string) list \<Rightarrow> nat \<Rightarrow> ApiHandlerOptions \<Rightarrow> OpenAiAssistantHandler" where
  "mkHandler DEFAULT_HEADERS apiRequestTimeout opts =
     (let key = js_or (openAiAssistantApiKey opts) '''' in
      \<lparr> options = opts,
        baseURL = js_or (openAiAssistantBaseUrl opts) ''https://api.openai.com/v1'',
        apiKey = key,
        assistantId = js_or (openAiAssistantId opts) '''',
        headers =
          set_header ''Authorization'' (''Bearer '' @ key)
            (set_header ''Content-Type'' ''application/json''
              (set_header ''OpenAI-Beta'' ''assistants=v2'' DEFAULT_HEADERS)),
        timeout = apiRequestTimeout \<rparr>)"

section \<open>Transport with retry\<close>

definition maxRetries :: nat where
  "maxRetries = 2"

definition retryDelay :: nat where
  "retryDelay = 60000"

text \<open>The request configuration handed to \<open>axios\<close>.\<close>

definition axiosConfig ::
  "OpenAiAssistantHandler \<Rightarrow> Method \<Rightarrow> string \<Rightarrow> RequestData \<Rightarrow> AxiosRequest" where
  "axiosConfig h method endpoint data =
     \<lparr> req_method = method, req_url = baseURL h @ endpoint, req_headers = headers h,
       req_data = data, req_timeout = timeout h \<rparr>"

function makeApiCall ::
  "OpenAiAssistantHandler \<Rightarrow> 'a axios \<Rightarrow> Method \<Rightarrow> string \<Rightarrow> RequestData \<Rightarrow> nat \<Rightarrow>
     Event list \<Rightarrow> (thrown + 'a) \<times> Event list" where
  "makeApiCall h ax method endpoint data retryCount tr =
     (let tr1 = tr @ [Request (axiosConfig h method endpoint data)]
      in case ax tr1 of
           Inr d \<Rightarrow> (Inr d, tr1)
         | Inl (AxiosError response msg) \<Rightarrow>
             (let statusCode = map_option err_status response;
                  message = js_or (Option.bind response err_data_message) msg
              in if statusCode = Some 429 \<and> retryCount < maxRetries
                 then makeApiCall h ax method endpoint data (retryCount + 1)
                        (tr1 @ [Sleep retryDelay])
                 else (Inl (Error (providerName @ '' API error: '' @ message)), tr1))
         | Inl (OtherFailure e) \<Rightarrow> (Inl e, tr1))"
  by pat_completeness auto
termination
  by (relation "measure (\<lambda>(h, ax, method, endpoint, data, retryCount, tr). maxRetries - retryCount)")
     auto

section \<open>Message flattener\<close>

text \<open>
  The callback of \<open>messages.map\<close>. \<open>join\<close> renders an undefined element as the empty
  string.
\<close>

definition flattenMessage :: "MessageParam \<Rightarrow> string" where
  "flattenMessage msg =
     (case content msg of
        StringContent c \<Rightarrow> role_text (role msg) @ '': '' @ c
      | ArrayContent parts \<Rightarrow>
          (let textParts =
                 join NL (map (\<lambda>part. case bp_text part of None \<Rightarrow> [] | Some t \<Rightarrow> t)
                            (filter (\<lambda>part. bp_type part = ''text'') parts))
           in role_text (role msg) @ '': '' @ textParts)
      | OtherContent \<Rightarrow> [])"

definition constructUserMessage :: "string \<Rightarrow> MessageParam list \<Rightarrow> string" where
  "constructUserMessage systemPrompt messages =
     (let conversationText =
            join (NL @ NL) (filter (\<lambda>text. length text > 0) (map flattenMessage messages))
      in systemPrompt @ NL @ NL @ conversationText)"

section \<open>Run-lifecycle driver\<close>

definition maxWaitTime :: nat where
  "maxWaitTime = 300000"

definition pollInterval :: nat where
  "pollInterval = 1000"

text \<open>The variables of the poll loop.\<close>

record PollState =
  runStatus :: string
  currentRun :: RunResponse
  elapsedTime :: nat

definition runEndpoint :: "ThreadResponse \<Rightarrow> RunResponse \<Rightarrow> string" where
  "runEndpoint thread run = ''/threads/'' @ t_id thread @ ''/runs/'' @ r_id run"

definition placeholderOutputs :: "ToolCall list \<Rightarrow> ToolOutput list" where
  "placeholderOutputs toolCalls =
     map (\<lambda>call. \<lparr> tool_call_id = tc_id call,
                    tool_output = ''Tool execution not implemented'' \<rparr>) toolCalls"

text \<open>
  One pass through the body of the \<open>while\<close> loop: wait, fetch the run, abort on a failure
  status, answer a pending tool request. \<open>Inl\<close> is a \<open>throw\<close> out of the loop.
\<close>

definition pollStep ::
  "OpenAiAssistantHandler \<Rightarrow> Axios \<Rightarrow> ThreadResponse \<Rightarrow> RunResponse \<Rightarrow> PollState \<Rightarrow>
     Event list \<Rightarrow> (thrown + PollState) \<times> Event list" where
  "pollStep h ax thread run s tr =
     (let tr1 = tr @ [Sleep pollInterval];
          elapsed = elapsedTime s + pollInterval
      in case makeApiCall h (axiosRun ax) GET (runEndpoint thread run) NoData 0 tr1 of
           (Inl e, tr2) \<Rightarrow> (Inl e, tr2)
         | (Inr cur, tr2) \<Rightarrow>
             (let st = status cur
              in if st = ''failed'' \<or> st = ''cancelled'' \<or> st = ''expired''
                 then (let errorDetails =
                             (case last_error cur of
                                Some le \<Rightarrow> le_code le @ '': '' @ le_message le
                              | None \<Rightarrow> ''No error details available'')
                       in (Inl (Error (''Assistant run '' @ st @ '': '' @ errorDetails)), tr2))
                 else (case (if st = ''requires_action'' then required_action cur else None) of
                         Some action \<Rightarrow>
                           (case makeApiCall h (axiosAny ax) POST
                                   (runEndpoint thread run @ ''/submit_tool_outputs'')
                                   (ToolOutputsData
                                      (placeholderOutputs (tool_calls (submit_tool_outputs action))))
                                   0 tr2 of
                              (Inl e, tr3) \<Rightarrow> (Inl e, tr3)
                            | (Inr _, tr3) \<Rightarrow>
                                (Inr \<lparr> runStatus = st, currentRun = cur, elapsedTime = elapsed \<rparr>,
                                 tr3))
                       | None \<Rightarrow>
                           (Inr \<lparr> runStatus = st, currentRun = cur, elapsedTime = elapsed \<rparr>,
                            tr2))))"

function pollForCompletion ::
  "OpenAiAssistantHandler \<Rightarrow> Axios \<Rightarrow> ThreadResponse \<Rightarrow> RunResponse \<Rightarrow> PollState \<Rightarrow>
     Event list \<Rightarrow> (thrown + PollState) \<times> Event list" where
  "pollForCompletion h ax thread run s tr =
     (if runStatus s \<noteq> ''completed'' \<and> elapsedTime s < maxWaitTime
      then (case pollStep h ax thread run s tr of
              (Inl e, tr') \<Rightarrow> (Inl e, tr')
            | (Inr s', tr') \<Rightarrow> pollForCompletion h ax thread run s' tr')
      else (Inr s, tr))"
  by pat_completeness auto
termination
  apply (relation "measure (\<lambda>(h, ax, thread, run, s, tr). maxWaitTime - elapsedTime s)")
   apply simp
  apply (auto simp: pollStep_def Let_def pollInterval_def
      split: prod.splits sum.splits if_splits option.splits)
  done

section \<open>The invocation\<close>

text \<open>Steps 1 to 3: create the thread, post the flattened conversation, create the run.\<close>

definition startRun ::
  "OpenAiAssistantHandler \<Rightarrow> Axios \<Rightarrow> string \<Rightarrow> MessageParam list \<Rightarrow> Event list \<Rightarrow>
     (thrown + ThreadResponse \<times> RunResponse) \<times> Event list" where
  "startRun h ax systemPrompt messages tr =
     (case makeApiCall h (axiosThread ax) POST ''/threads'' EmptyObject 0 tr of
        (Inl e, tr1) \<Rightarrow> (Inl e, tr1)
      | (Inr thread, tr1) \<Rightarrow>
          (let fullMessage = constructUserMessage systemPrompt messages
           in case makeApiCall h (axiosMessage ax) POST
                     (''/threads/'' @ t_id thread @ ''/messages'')
                     (MessageData ''user'' fullMessage) 0 tr1 of
                (Inl e, tr2) \<Rightarrow> (Inl e, tr2)
              | (Inr _, tr2) \<Rightarrow>
                  (case makeApiCall h (axiosRun ax) POST
                          (''/threads/'' @ t_id thread @ ''/runs'')
                          (RunData (assistantId h)) 0 tr2 of
                     (Inl e, tr3) \<Rightarrow> (Inl e, tr3)
                   | (Inr run, tr3) \<Rightarrow> (Inr (thread, run), tr3))))"

text \<open>The text of the answer: the text parts of the latest assistant message.\<close>

definition textContent :: "ThreadMessage \<Rightarrow> string" where
  "textContent latestMessage =
     join NL (map (\<lambda>c. case cp_text c of Some t \<Rightarrow> text_value t | None \<Rightarrow> [])
                (filter (\<lambda>c. cp_type c = ''text'' \<and> cp_text c \<noteq> None)
                   (tm_content latestMessage)))"

text \<open>Step 5 and the two \<open>yield\<close>s.\<close>

definition retrieveMessages ::
  "OpenAiAssistantHandler \<Rightarrow> Axios \<Rightarrow> ThreadResponse \<Rightarrow> Event list \<Rightarrow>
     (thrown + unit) \<times> Event list" where
  "retrieveMessages h ax thread tr =
     (case makeApiCall h (axiosMessagesList ax) GET
             (''/threads/'' @ t_id thread @ ''/messages'') NoData 0 tr of
        (Inl e, tr1) \<Rightarrow> (Inl e, tr1)
      | (Inr messagesResponse, tr1) \<Rightarrow>
          (let assistantMessages =
                 filter (\<lambda>msg. tm_role msg = Assistant) (l_data messagesResponse)
           in case assistantMessages of
                [] \<Rightarrow> (Inl (Error ''No assistant response found''), tr1)
              | latestMessage # _ \<Rightarrow>
                  (Inr (),
                   tr1 @ [Yield (TextChunk (textContent latestMessage)),
                          Yield (UsageChunk 0 0)])))"

text \<open>The body of the \<open>try\<close> block.\<close>

definition createMessageTry ::
  "OpenAiAssistantHandler \<Rightarrow> Axios \<Rightarrow> string \<Rightarrow> MessageParam list \<Rightarrow> Event list \<Rightarrow>
     (thrown + unit) \<times> Event list" where
  "createMessageTry h ax systemPrompt messages tr =
     (case startRun h ax systemPrompt messages tr of
        (Inl e, tr3) \<Rightarrow> (Inl e, tr3)
      | (Inr (thread, run), tr3) \<Rightarrow>
          (case pollForCompletion h ax thread run
                  \<lparr> runStatus = status run, currentRun = run, elapsedTime = 0 \<rparr> tr3 of
             (Inl e, tr4) \<Rightarrow> (Inl e, tr4)
           | (Inr s, tr4) \<Rightarrow>
               if runStatus s \<noteq> ''completed''
               then (Inl (Error ''Assistant run timeout''), tr4)
               else retrieveMessages h ax thread tr4))"

text \<open>
  \<open>createMessage\<close>: the check of the assistant identifier, then the \<open>try\<close> block, whose
  \<open>catch\<close> wraps the message of an \<open>Error\<close> and rethrows anything else as it is. The result
  is how the generator ends and everything it did, from an empty history.
\<close>

definition createMessage ::
  "OpenAiAssistantHandler \<Rightarrow> Axios \<Rightarrow> string \<Rightarrow> MessageParam list \<Rightarrow>
     (thrown + unit) \<times> Event list" where
  "createMessage h ax systemPrompt messages =
     (if assistantId h = []
      then (Inl (Error ''OpenAI Assistant ID is required''), [])
      else (case createMessageTry h ax systemPrompt messages [] of
              (Inl (Error m), tr) \<Rightarrow> (Inl (Error (providerName @ '' error: '' @ m)), tr)
            | (Inl (NonError v), tr) \<Rightarrow> (Inl (NonError v), tr)
            | (Inr u, tr) \<Rightarrow> (Inr u, tr)))"

text \<open>Observations on a history.\<close>

definition emitted :: "Event list \<Rightarrow> ApiStreamChunk list" where
  "emitted tr = concat (map (\<lambda>ev. case ev of Yield c \<Rightarrow> [c] | _ \<Rightarrow> []) tr)"

definition requests :: "Event list \<Rightarrow> AxiosRequest list" where
  "requests tr = concat (map (\<lambda>ev. case ev of Request r \<Rightarrow> [r] | _ \<Rightarrow> []) tr)"

text \<open>
  The calls of the submit-tool-outputs endpoint in a history: the POST requests whose URL
  ends in \<open>/submit_tool_outputs\<close>.
\<close>

definition isSubmit :: "AxiosRequest \<Rightarrow> bool" where
  "isSubmit r \<longleftrightarrow> req_method r = POST \<and> suffix ''/submit_tool_outputs'' (req_url r)"

definition submitCalls :: "Event list \<Rightarrow> AxiosRequest list" where
  "submitCalls tr = filter isSubmit (requests tr)"

text \<open>The number of waits of the poll loop in a history (a retry waits longer).\<close>

definition polls :: "Event list \<Rightarrow> nat" where
  "polls tr = length (filter (\<lambda>ev. ev = Sleep pollInterval) tr)"

text \<open>
  The passes of the poll loop that an invocation goes through: from the variables and the
  history at one point of the loop, those after any number of passes that ended normally.
\<close>

inductive pollReaches ::
  "OpenAiAssistantHandler \<Rightarrow> Axios \<Rightarrow> ThreadResponse \<Rightarrow> RunResponse \<Rightarrow>
     PollState \<Rightarrow> Event list \<Rightarrow> PollState \<Rightarrow> Event list \<Rightarrow> bool"
  for h ax thread run s tr where
    start: "pollReaches h ax thread run s tr s tr"
  | step: "pollReaches h ax thread run s tr s1 tr1 \<Longrightarrow>
           runStatus s1 \<noteq> ''completed'' \<Longrightarrow> elapsedTime s1 < maxWaitTime \<Longrightarrow>
           pollStep h ax thread run s1 tr1 = (Inr s2, tr2) \<Longrightarrow>
           pollReaches h ax thread run s tr s2 tr2"

section \<open>Example configurations and services\<close>

definition exampleHandler :: OpenAiAssistantHandler where
  "exampleHandler =
     mkHandler [(''User-Agent'', ''Kilo-Code'')] 600000
       \<lparr> openAiAssistantBaseUrl = None, openAiAssistantApiKey = Some ''sk-test'',
         openAiAssistantId = Some ''asst_1'' \<rparr>"

definition rateLimited :: AxiosFailure where
  "rateLimited =
     AxiosError (Some \<lparr> err_status = 429, err_data_message = Some ''Rate limit reached'' \<rparr>)
       ''Request failed with status code 429''"

definition serverError :: AxiosFailure where
  "serverError =
     AxiosError (Some \<lparr> err_status = 500, err_data_message = None \<rparr>)
       ''Request failed with status code 500''"

text \<open>A service that answers 429 to the first two attempts and then succeeds.\<close>

definition twiceLimited :: "unit axios" where
  "twiceLimited tr = (if length tr < 5 then Inl rateLimited else Inr ())"

text \<open>
  A remote service scripted by the number of polls made so far: it creates the thread, the
  message and the run, answers the \<open>n\<close>-th fetch of the run with \<open>runAt n\<close> (the run as
  created is \<open>runAt 0\<close>), lists \<open>listing\<close> and accepts tool outputs.
\<close>

definition exampleThread :: ThreadResponse where
  "exampleThread = \<lparr> t_id = ''thread_1'', t_object = ''thread'', t_created_at = 0 \<rparr>"

definition exampleMessage :: MessageResponse where
  "exampleMessage =
     \<lparr> m_id = ''msg_1'', m_object = ''thread.message'', m_thread_id = ''thread_1'' \<rparr>"

definition exampleRun :: "string \<Rightarrow> RunResponse" where
  "exampleRun st =
     \<lparr> r_id = ''run_1'', r_object = ''thread.run'', status = st, r_thread_id = ''thread_1'',
       assistant_id = ''asst_1'', required_action = None, last_error = None \<rparr>"

definition exampleListing :: MessagesListResponse where
  "exampleListing =
     \<lparr> l_object = ''list'',
       l_data =
         [\<lparr> tm_id = ''msg_2'', tm_object = ''thread.message'', tm_role = Assistant,
            tm_content =
              [\<lparr> cp_type = ''text'', cp_text = Some \<lparr> text_value = ''Hello'' \<rparr> \<rparr>,
               \<lparr> cp_type = ''image_file'', cp_text = None \<rparr>,
               \<lparr> cp_type = ''text'', cp_text = Some \<lparr> text_value = ''World'' \<rparr> \<rparr>] \<rparr>,
          \<lparr> tm_id = ''msg_1'', tm_object = ''thread.message'', tm_role = User,
            tm_content =
              [\<lparr> cp_type = ''text'', cp_text = Some \<lparr> text_value = ''S'' \<rparr> \<rparr>] \<rparr>] \<rparr>"

definition scriptedService :: "(nat \<Rightarrow> RunResponse) \<Rightarrow> MessagesListResponse \<Rightarrow> Axios" where
  "scriptedService runAt listing =
     \<lparr> axiosThread = (\<lambda>tr. Inr exampleThread),
       axiosMessage = (\<lambda>tr. Inr exampleMessage),
       axiosRun = (\<lambda>tr. Inr (runAt (polls tr))),
       axiosMessagesList = (\<lambda>tr. Inr listing),
       axiosAny = (\<lambda>tr. Inr ()) \<rparr>"

definition completingRun :: "nat \<Rightarrow> RunResponse" where
  "completingRun n =
     exampleRun (if n = 0 then ''queued'' else if n = 1 then ''in_progress'' else ''completed'')"

definition failingRun :: "nat \<Rightarrow> RunResponse" where
  "failingRun n =
     (if n = 0 then exampleRun ''queued''
      else (exampleRun ''failed'')
             \<lparr> last_error := Some \<lparr> le_code = ''server_error'', le_message = ''boom'' \<rparr> \<rparr>)"

definition expiringRun :: "nat \<Rightarrow> RunResponse" where
  "expiringRun n =
     exampleRun (if n = 0 then ''queued'' else if n = 1 then ''in_progress'' else ''expired'')"

definition pendingRun :: "nat \<Rightarrow> RunResponse" where
  "pendingRun n = exampleRun ''in_progress''"

definition waitingRun :: "nat \<Rightarrow> RunResponse" where
  "waitingRun n = exampleRun ''requires_action''"

definition exampleAction :: RequiredAction where
  "exampleAction =
     \<lparr> ra_type = ''submit_tool_outputs'',
       submit_tool_outputs =
         \<lparr> tool_calls =
             [\<lparr> tc_id = ''call_1'', tc_type = ''function'',
                tc_function = \<lparr> fn_name = ''get_weather'', fn_arguments = ''{}'' \<rparr> \<rparr>,
              \<lparr> tc_id = ''call_2'', tc_type = ''function'',
                tc_function = \<lparr> fn_name = ''get_time'', fn_arguments = ''{}'' \<rparr> \<rparr>] \<rparr> \<rparr>"

definition toolRun :: "nat \<Rightarrow> RunResponse" where
  "toolRun n =
     (if n = 0 then exampleRun ''queued''
      else if n = 1 then (exampleRun ''requires_action'') \<lparr> required_action := Some exampleAction \<rparr>
      else exampleRun ''completed'')"

definition userOnlyListing :: MessagesListResponse where
  "userOnlyListing =
     \<lparr> l_object = ''list'',
       l_data =
         [\<lparr> tm_id = ''msg_1'', tm_object = ''thread.message'', tm_role = User,
            tm_content =
              [\<lparr> cp_type = ''text'', cp_text = Some \<lparr> text_value = ''S'' \<rparr> \<rparr>] \<rparr>] \<rparr>"

definition brokenService :: Axios where
  "brokenService =
     \<lparr> axiosThread = (\<lambda>tr. Inl serverError), axiosMessage = (\<lambda>tr. Inl serverError),
       axiosRun = (\<lambda>tr. Inl serverError), axiosMessagesList = (\<lambda>tr. Inl serverError),
       axiosAny = (\<lambda>tr. Inl serverError) \<rparr>"

definition exampleConversation :: "MessageParam list" where
  "exampleConversation = [\<lparr> role = User, content = StringContent ''hi'' \<rparr>]"

section \<open>Properties of the message flattener\<close>

lemma flattenMessage_empty_iff: "flattenMessage m = [] \<longleftrightarrow> content m = OtherContent"
  by (cases "role m") (auto simp: flattenMessage_def Let_def split: MessageContent.splits)

lemma filter_map_flatten:
  "filter (\<lambda>text. length text > 0) (map flattenMessage msgs) =
   map flattenMessage (filter (\<lambda>m. content m \<noteq> OtherContent) msgs)"
  by (induction msgs) (auto simp: flattenMessage_empty_iff)

text \<open>
  C1, as the spec states it, fails: a message whose content is a list with no text part is
  not dropped. It is flattened to its role, a colon and a space, which is not the empty
  string, so the filter keeps it. Here a single user message holding one image block
  leaves \<open>user: \<close> after the system prompt, where the empty conversation leaves nothing.
\<close>

theorem constructUserMessage_keeps_textless_message:
  "constructUserMessage ''S''
     [\<lparr> role = User,
        content = ArrayContent [\<lparr> bp_type = ''image'', bp_text = None \<rparr>] \<rparr>]
     = ''S'' @ NL @ NL @ ''user: '' \<and>
   constructUserMessage ''S'' [] = ''S'' @ NL @ NL"
  by (simp add: constructUserMessage_def flattenMessage_def)

text \<open>
  C1, amended: the flattened text is the system prompt, two newline characters, and the
  per-message strings joined by two newline characters; exactly the messages whose
  content is neither a string nor a list are dropped; every other message contributes
  its role, a colon, a space and its text (for a list, the text of its text-typed parts
  joined by a newline, which is empty when it has none).
\<close>

theorem constructUserMessage_flattened:
  "constructUserMessage systemPrompt messages =
     systemPrompt @ NL @ NL @
       join (NL @ NL)
         (map (\<lambda>m. role_text (role m) @ '': '' @
                 (case content m of
                    StringContent c \<Rightarrow> c
                  | ArrayContent parts \<Rightarrow>
                      join NL (map (\<lambda>part. case bp_text part of None \<Rightarrow> [] | Some t \<Rightarrow> t)
                                 (filter (\<lambda>part. bp_type part = ''text'') parts))
                  | OtherContent \<Rightarrow> []))
            (filter (\<lambda>m. content m \<noteq> OtherContent) messages))"
proof -
  have A: "map flattenMessage (filter (\<lambda>m. content m \<noteq> OtherContent) messages) =
        map (\<lambda>m. role_text (role m) @ '': '' @
                 (case content m of
                    StringContent c \<Rightarrow> c
                  | ArrayContent parts \<Rightarrow>
                      join NL (map (\<lambda>part. case bp_text part of None \<Rightarrow> [] | Some t \<Rightarrow> t)
                                 (filter (\<lambda>part. bp_type part = ''text'') parts))
                  | OtherContent \<Rightarrow> []))
            (filter (\<lambda>m. content m \<noteq> OtherContent) messages)"
    by (rule map_cong) (auto simp: flattenMessage_def Let_def split: MessageContent.splits)
  show ?thesis
    unfolding constructUserMessage_def Let_def filter_map_flatten A by (rule refl)
qed

section \<open>Properties of the transport\<close>

lemma makeApiCall_ok:
  "ax (tr @ [Request (axiosConfig h method endpoint data)]) = Inr d \<Longrightarrow>
     makeApiCall h ax method endpoint data retryCount tr =
       (Inr d, tr @ [Request (axiosConfig h method endpoint data)])"
  by (simp add: Let_def)

lemma makeApiCall_other:
  "ax (tr @ [Request (axiosConfig h method endpoint data)]) = Inl (OtherFailure e) \<Longrightarrow>
     makeApiCall h ax method endpoint data retryCount tr =
       (Inl e, tr @ [Request (axiosConfig h method endpoint data)])"
  by (simp add: Let_def)

lemma makeApiCall_retry:
  "ax (tr @ [Request (axiosConfig h method endpoint data)]) = Inl (AxiosError response e) \<Longrightarrow>
   map_option err_status response = Some 429 \<Longrightarrow> retryCount < maxRetries \<Longrightarrow>
     makeApiCall h ax method endpoint data retryCount tr =
       makeApiCall h ax method endpoint data (retryCount + 1)
         (tr @ [Request (axiosConfig h method endpoint data), Sleep retryDelay])"
  by (subst makeApiCall.simps) (simp add: Let_def)

lemma makeApiCall_fail:
  "ax (tr @ [Request (axiosConfig h method endpoint data)]) = Inl (AxiosError response e) \<Longrightarrow>
   map_option err_status response \<noteq> Some 429 \<or> \<not> retryCount < maxRetries \<Longrightarrow>
     makeApiCall h ax method endpoint data retryCount tr =
       (Inl (Error (providerName @ '' API error: '' @
                      js_or (Option.bind response err_data_message) e)),
        tr @ [Request (axiosConfig h method endpoint data)])"
  by (subst makeApiCall.simps) (auto simp: Let_def)

declare makeApiCall.simps [simp del]

text \<open>
  C4: a call answered 429 on its first two attempts and successfully on the third returns
  that result, having waited 60000 ms after each 429; a 429 on the third attempt is not
  retried, and an error status other than 429 is not retried at any attempt. The error
  raised then carries the provider's name, \<open>API error:\<close> and the remote error message when
  there is a non-empty one, else the message of the transport error.
\<close>

theorem makeApiCall_rate_limit_policy:
  "(let req = Request (axiosConfig h method endpoint data);
        wait = Sleep 60000;
        limited = (\<lambda>m e. Inl (AxiosError (Some \<lparr> err_status = 429, err_data_message = m \<rparr>) e))
    in (ax (tr @ [req]) = limited m1 e1 \<and>
        ax (tr @ [req, wait, req]) = limited m2 e2 \<and>
        ax (tr @ [req, wait, req, wait, req]) = Inr d \<longrightarrow>
          makeApiCall h ax method endpoint data 0 tr =
            (Inr d, tr @ [req, wait, req, wait, req])) \<and>
       (ax (tr @ [req]) = limited m1 e1 \<and>
        ax (tr @ [req, wait, req]) = limited m2 e2 \<and>
        ax (tr @ [req, wait, req, wait, req]) = limited m3 e3 \<longrightarrow>
          makeApiCall h ax method endpoint data 0 tr =
            (Inl (Error (''OpenAI Assistant API error: '' @ js_or m3 e3)),
             tr @ [req, wait, req, wait, req])) \<and>
       (ax (tr @ [req]) = Inl (AxiosError response e) \<and>
        map_option err_status response \<noteq> Some 429 \<longrightarrow>
          makeApiCall h ax method endpoint data retryCount tr =
            (Inl (Error (''OpenAI Assistant API error: '' @
                           js_or (Option.bind response err_data_message) e)),
             tr @ [req])))"
  unfolding Let_def
proof (intro conjI impI)
  let ?req = "Request (axiosConfig h method endpoint data)"
  let ?w = "Sleep 60000"
  let ?lim = "\<lambda>m e. Inl (AxiosError (Some \<lparr> err_status = 429, err_data_message = m \<rparr>) e)"
  {
    assume a: "ax (tr @ [?req]) = ?lim m1 e1 \<and> ax (tr @ [?req, ?w, ?req]) = ?lim m2 e2 \<and>
               ax (tr @ [?req, ?w, ?req, ?w, ?req]) = Inr d"
    have "makeApiCall h ax method endpoint data 0 tr =
          makeApiCall h ax method endpoint data (Suc 0) (tr @ [?req, ?w])"
      using a makeApiCall_retry [of ax tr h "method" "endpoint" data _ e1 0]
      by (simp add: maxRetries_def retryDelay_def)
    also have "\<dots> = makeApiCall h ax method endpoint data (Suc (Suc 0)) (tr @ [?req, ?w, ?req, ?w])"
      using a makeApiCall_retry [of ax "tr @ [?req, ?w]" h "method" "endpoint" data _ e2 "Suc 0"]
      by (simp add: maxRetries_def retryDelay_def)
    also have "\<dots> = (Inr d, tr @ [?req, ?w, ?req, ?w, ?req])"
      using a makeApiCall_ok [of ax "tr @ [?req, ?w, ?req, ?w]" h "method" "endpoint" data d "Suc (Suc 0)"]
      by simp
    finally show "makeApiCall h ax method endpoint data 0 tr =
        (Inr d, tr @ [?req, ?w, ?req, ?w, ?req])" .
  }
  {
    assume a: "ax (tr @ [?req]) = ?lim m1 e1 \<and> ax (tr @ [?req, ?w, ?req]) = ?lim m2 e2 \<and>
               ax (tr @ [?req, ?w, ?req, ?w, ?req]) = ?lim m3 e3"
    have "makeApiCall h ax method endpoint data 0 tr =
          makeApiCall h ax method endpoint data (Suc 0) (tr @ [?req, ?w])"
      using a makeApiCall_retry [of ax tr h "method" "endpoint" data _ e1 0]
      by (simp add: maxRetries_def retryDelay_def)
    also have "\<dots> = makeApiCall h ax method endpoint data (Suc (Suc 0)) (tr @ [?req, ?w, ?req, ?w])"
      using a makeApiCall_retry [of ax "tr @ [?req, ?w]" h "method" "endpoint" data _ e2 "Suc 0"]
      by (simp add: maxRetries_def retryDelay_def)
    also have "\<dots> = (Inl (Error (''OpenAI Assistant API error: '' @ js_or m3 e3)),
                      tr @ [?req, ?w, ?req, ?w, ?req])"
      using a makeApiCall_fail [of ax "tr @ [?req, ?w, ?req, ?w]" h "method" "endpoint" data _ e3 "Suc (Suc 0)"]
      by (simp add: maxRetries_def providerName_def)
    finally show "makeApiCall h ax method endpoint data 0 tr =
        (Inl (Error (''OpenAI Assistant API error: '' @ js_or m3 e3)),
         tr @ [?req, ?w, ?req, ?w, ?req])" .
  }
  {
    assume a: "ax (tr @ [?req]) = Inl (AxiosError response e) \<and>
               map_option err_status response \<noteq> Some 429"
    then show "makeApiCall h ax method endpoint data retryCount tr =
        (Inl (Error (''OpenAI Assistant API error: '' @
                       js_or (Option.bind response err_data_message) e)), tr @ [?req])"
      using makeApiCall_fail [of ax tr h "method" "endpoint" data response e retryCount]
      by (simp add: providerName_def)
  }
qed

theorem makeApiCall_rate_limit_policy_witness:
  "(let req = Request (axiosConfig exampleHandler POST ''/threads'' EmptyObject);
        wait = Sleep 60000
    in makeApiCall exampleHandler twiceLimited POST ''/threads'' EmptyObject 0 [] =
         (Inr (), [req, wait, req, wait, req]) \<and>
       makeApiCall exampleHandler (\<lambda>tr. Inl rateLimited :: AxiosFailure + unit)
           POST ''/threads'' EmptyObject 0 [] =
         (Inl (Error ''OpenAI Assistant API error: Rate limit reached''),
          [req, wait, req, wait, req]) \<and>
       makeApiCall exampleHandler (\<lambda>tr. Inl serverError :: AxiosFailure + unit)
           POST ''/threads'' EmptyObject 0 [] =
         (Inl (Error ''OpenAI Assistant API error: Request failed with status code 500''),
          [req]))"
  using
    makeApiCall_rate_limit_policy [of exampleHandler POST "''/threads''" EmptyObject
      twiceLimited "[]" "Some ''Rate limit reached''" "''Request failed with status code 429''"
      "Some ''Rate limit reached''" "''Request failed with status code 429''" "()"]
    makeApiCall_rate_limit_policy [of exampleHandler POST "''/threads''" EmptyObject
      "\<lambda>tr. Inl rateLimited :: AxiosFailure + unit" "[]"
      "Some ''Rate limit reached''" "''Request failed with status code 429''"
      "Some ''Rate limit reached''" "''Request failed with status code 429''" _
      "Some ''Rate limit reached''" "''Request failed with status code 429''"]
    makeApiCall_rate_limit_policy [of exampleHandler POST "''/threads''" EmptyObject
      "\<lambda>tr. Inl serverError :: AxiosFailure + unit" "[]" _ _ _ _ _ _ _
      "Some \<lparr> err_status = 500, err_data_message = None \<rparr>"
      "''Request failed with status code 500''" 0]
  by (simp add: Let_def twiceLimited_def rateLimited_def serverError_def)

section \<open>Histories\<close>

lemma emitted_simps [simp]:
  "emitted [] = []"
  "emitted (Request r # tr) = emitted tr"
  "emitted (Sleep n # tr) = emitted tr"
  "emitted (Yield c # tr) = c # emitted tr"
  "emitted (tr @ tr') = emitted tr @ emitted tr'"
  by (simp_all add: emitted_def)

lemma emitted_retries [simp]:
  "emitted (concat (replicate n [Sleep d, Request r])) = []"
  by (induction n) simp_all

lemma polls_simps [simp]:
  "polls [] = 0"
  "polls (Request r # tr) = polls tr"
  "polls (Yield c # tr) = polls tr"
  "polls (Sleep n # tr) = (if n = pollInterval then Suc (polls tr) else polls tr)"
  "polls (tr @ tr') = polls tr + polls tr'"
  by (simp_all add: polls_def)

lemma polls_retries [simp]:
  "polls (concat (replicate n [Sleep retryDelay, Request r])) = 0"
  by (induction n) (simp_all add: retryDelay_def pollInterval_def)

lemma requests_simps [simp]:
  "requests [] = []"
  "requests (Request r # tr) = r # requests tr"
  "requests (Sleep n # tr) = requests tr"
  "requests (Yield c # tr) = requests tr"
  "requests (tr @ tr') = requests tr @ requests tr'"
  by (simp_all add: requests_def)

lemma submitCalls_simps [simp]:
  "submitCalls [] = []"
  "submitCalls (Sleep n # tr) = submitCalls tr"
  "submitCalls (Yield c # tr) = submitCalls tr"
  "submitCalls (Request r # tr) = (if isSubmit r then r # submitCalls tr else submitCalls tr)"
  "submitCalls (tr @ tr') = submitCalls tr @ submitCalls tr'"
  by (simp_all add: submitCalls_def)

lemma submitCalls_retries:
  "\<not> isSubmit r \<Longrightarrow> submitCalls (concat (replicate n [Sleep d, Request r])) = []"
  by (induction n) auto

text \<open>Only the call made for a pending tool request goes to the submit endpoint.\<close>

lemma isSubmit_GET [simp]: "\<not> isSubmit (axiosConfig h GET endpoint data)"
  by (simp add: isSubmit_def axiosConfig_def)

lemma isSubmit_threads [simp]: "\<not> isSubmit (axiosConfig h POST ''/threads'' data)"
  by (simp add: isSubmit_def axiosConfig_def suffix_to_prefix)

lemma isSubmit_messages [simp]: "\<not> isSubmit (axiosConfig h POST (x @ ''/messages'') data)"
  by (simp add: isSubmit_def axiosConfig_def suffix_to_prefix)

lemma isSubmit_runs [simp]: "\<not> isSubmit (axiosConfig h POST (x @ ''/runs'') data)"
  by (simp add: isSubmit_def axiosConfig_def suffix_to_prefix)

lemma isSubmit_submit [simp]:
  "isSubmit (axiosConfig h POST (x @ ''/submit_tool_outputs'') data)"
  by (simp add: isSubmit_def axiosConfig_def suffix_def)

text \<open>One call makes at most three attempts, separated by the retry delay.\<close>

lemma makeApiCall_trace:
  "\<exists>n. n \<le> maxRetries - retryCount \<and>
       snd (makeApiCall h ax meth endpoint data retryCount tr) =
         tr @ Request (axiosConfig h meth endpoint data) #
           concat (replicate n [Sleep retryDelay, Request (axiosConfig h meth endpoint data)])"
proof (induction h ax meth endpoint data retryCount tr rule: makeApiCall.induct)
  case (1 h ax meth endpoint data retryCount tr)
  let ?req = "Request (axiosConfig h meth endpoint data)"
  show ?case
  proof (cases "ax (tr @ [?req])")
    case (Inr d)
    then have "snd (makeApiCall h ax meth endpoint data retryCount tr) = tr @ [?req]"
      by (simp add: makeApiCall_ok)
    then show ?thesis by (intro exI [of _ 0]) simp
  next
    case (Inl f)
    show ?thesis
    proof (cases f)
      case (OtherFailure e)
      with Inl have "snd (makeApiCall h ax meth endpoint data retryCount tr) = tr @ [?req]"
        by (simp add: makeApiCall_other)
      then show ?thesis by (intro exI [of _ 0]) simp
    next
      case (AxiosError response msg)
      show ?thesis
      proof (cases "map_option err_status response = Some 429 \<and> retryCount < maxRetries")
        case False
        with Inl AxiosError
        have "snd (makeApiCall h ax meth endpoint data retryCount tr) = tr @ [?req]"
          by (simp add: makeApiCall_fail)
        then show ?thesis by (intro exI [of _ 0]) simp
      next
        case True
        with Inl AxiosError
        have eq: "makeApiCall h ax meth endpoint data retryCount tr =
              makeApiCall h ax meth endpoint data (retryCount + 1) (tr @ [?req, Sleep retryDelay])"
          by (simp add: makeApiCall_retry)
        from "1.IH" [OF refl Inl AxiosError refl refl] True
        obtain n where n: "n \<le> maxRetries - (retryCount + 1)"
          and tr: "snd (makeApiCall h ax meth endpoint data (retryCount + 1)
                          ((tr @ [?req]) @ [Sleep retryDelay])) =
                   ((tr @ [?req]) @ [Sleep retryDelay]) @ ?req #
                     concat (replicate n [Sleep retryDelay, ?req])"
          by auto
        from n True have "Suc n \<le> maxRetries - retryCount" by auto
        moreover from eq tr
        have "snd (makeApiCall h ax meth endpoint data retryCount tr) =
                tr @ ?req # concat (replicate (Suc n) [Sleep retryDelay, ?req])"
          by simp
        ultimately show ?thesis by blast
      qed
    qed
  qed
qed

lemma makeApiCall_emitted:
  "makeApiCall h ax meth endpoint data retryCount tr = (r, tr') \<Longrightarrow> emitted tr' = emitted tr"
  using makeApiCall_trace [of retryCount h ax meth endpoint data tr] by auto

lemma makeApiCall_polls:
  "makeApiCall h ax meth endpoint data retryCount tr = (r, tr') \<Longrightarrow> polls tr' = polls tr"
  using makeApiCall_trace [of retryCount h ax meth endpoint data tr] by auto

lemma makeApiCall_submitCalls:
  "makeApiCall h ax meth endpoint data retryCount tr = (r, tr') \<Longrightarrow>
   \<not> isSubmit (axiosConfig h meth endpoint data) \<Longrightarrow> submitCalls tr' = submitCalls tr"
  using makeApiCall_trace [of retryCount h ax meth endpoint data tr]
  by (auto simp: submitCalls_retries)

lemma makeApiCall_answer:
  "makeApiCall h ax meth endpoint data retryCount tr = (Inr d, tr') \<Longrightarrow> \<exists>tra. ax tra = Inr d"
proof (induction h ax meth endpoint data retryCount tr rule: makeApiCall.induct)
  case (1 h ax meth endpoint data retryCount tr)
  let ?req = "Request (axiosConfig h meth endpoint data)"
  show ?case
  proof (cases "ax (tr @ [?req])")
    case (Inr d')
    with "1.prems" have "d' = d" by (simp add: makeApiCall_ok)
    with Inr show ?thesis by blast
  next
    case (Inl f)
    show ?thesis
    proof (cases f)
      case (OtherFailure e)
      with Inl "1.prems" show ?thesis by (simp add: makeApiCall_other)
    next
      case (AxiosError response msg)
      show ?thesis
      proof (cases "map_option err_status response = Some 429 \<and> retryCount < maxRetries")
        case False
        with Inl AxiosError "1.prems" show ?thesis by (simp add: makeApiCall_fail)
      next
        case True
        with Inl AxiosError "1.prems"
        have "makeApiCall h ax meth endpoint data (retryCount + 1)
                ((tr @ [?req]) @ [Sleep retryDelay]) = (Inr d, tr')"
          by (simp add: makeApiCall_retry)
        from "1.IH" [OF refl Inl AxiosError refl refl True this] show ?thesis .
      qed
    qed
  qed
qed

lemma makeApiCall_always_ok:
  "\<forall>tr. \<exists>d. ax tr = Inr d \<and> P d \<Longrightarrow>
     \<exists>d. makeApiCall h ax meth endpoint data retryCount tr =
           (Inr d, tr @ [Request (axiosConfig h meth endpoint data)]) \<and> P d"
proof -
  assume a: "\<forall>tr. \<exists>d. ax tr = Inr d \<and> P d"
  then obtain d where "ax (tr @ [Request (axiosConfig h meth endpoint data)]) = Inr d" "P d"
    by blast
  then show ?thesis by (auto simp: makeApiCall_ok)
qed

section \<open>Properties of the poll loop\<close>

lemma pollStep_emitted:
  "pollStep h ax thread run s tr = (r, tr') \<Longrightarrow> emitted tr' = emitted tr"
  by (auto simp: pollStep_def Let_def split: prod.splits sum.splits if_splits option.splits
      dest!: makeApiCall_emitted)

lemma pollStep_polls:
  "pollStep h ax thread run s tr = (r, tr') \<Longrightarrow> polls tr' = Suc (polls tr)"
  by (auto simp: pollStep_def Let_def split: prod.splits sum.splits if_splits option.splits
      dest!: makeApiCall_polls)

lemma pollStep_state:
  "pollStep h ax thread run s tr = (Inr s', tr') \<Longrightarrow>
     elapsedTime s' = elapsedTime s + pollInterval \<and> runStatus s' = status (currentRun s')"
  by (auto simp: pollStep_def Let_def split: prod.splits sum.splits if_splits option.splits)

lemma pollStep_pending:
  assumes "makeApiCall h (axiosRun ax) GET (runEndpoint thread run) NoData 0
             (tr @ [Sleep pollInterval]) = (Inr cur, tr1)"
    and "status cur \<noteq> ''failed''" "status cur \<noteq> ''cancelled''" "status cur \<noteq> ''expired''"
    and "status cur = ''requires_action'' \<longrightarrow> required_action cur = None"
  shows "pollStep h ax thread run s tr =
           (Inr \<lparr> runStatus = status cur, currentRun = cur,
                  elapsedTime = elapsedTime s + pollInterval \<rparr>, tr1)"
  using assms by (auto simp: pollStep_def Let_def)

lemma pollForCompletion_emitted:
  "pollForCompletion h ax thread run s tr = (r, tr') \<Longrightarrow> emitted tr' = emitted tr"
proof (induction h ax thread run s tr rule: pollForCompletion.induct)
  case (1 h ax thread run s tr)
  show ?case
  proof (cases "runStatus s \<noteq> ''completed'' \<and> elapsedTime s < maxWaitTime")
    case False
    with "1.prems" show ?thesis by auto
  next
    case True
    obtain r1 tr1 where st: "pollStep h ax thread run s tr = (r1, tr1)"
      by (cases "pollStep h ax thread run s tr")
    then have e1: "emitted tr1 = emitted tr" by (rule pollStep_emitted)
    show ?thesis
    proof (cases r1)
      case (Inl e)
      with True st "1.prems" e1 show ?thesis by (simp split: if_splits)
    next
      case (Inr s1)
      with True st "1.prems" have "pollForCompletion h ax thread run s1 tr1 = (r, tr')"
        by (simp split: if_splits)
      from "1.IH" [OF True st [symmetric] Inr this] e1 show ?thesis by simp
    qed
  qed
qed

declare pollForCompletion.simps [simp del]

lemma pollForCompletion_step:
  "runStatus s \<noteq> ''completed'' \<Longrightarrow> elapsedTime s < maxWaitTime \<Longrightarrow>
     pollForCompletion h ax thread run s tr =
       (case pollStep h ax thread run s tr of
          (Inl e, tr') \<Rightarrow> (Inl e, tr')
        | (Inr s', tr') \<Rightarrow> pollForCompletion h ax thread run s' tr')"
  by (subst pollForCompletion.simps) simp

lemma pollForCompletion_exit:
  "runStatus s = ''completed'' \<or> \<not> elapsedTime s < maxWaitTime \<Longrightarrow>
     pollForCompletion h ax thread run s tr = (Inr s, tr)"
  by (subst pollForCompletion.simps) auto

lemma pollReaches_same_result:
  "pollReaches h ax thread run s tr s' tr' \<Longrightarrow>
     pollForCompletion h ax thread run s tr = pollForCompletion h ax thread run s' tr'"
  by (induction rule: pollReaches.induct) (auto simp: pollForCompletion_step)

text \<open>The loop invariant: each pass adds one interval and one wait.\<close>

lemma pollForCompletion_budget:
  "pollForCompletion h ax thread run s tr = (Inr s', tr') \<Longrightarrow>
     elapsedTime s' + pollInterval * polls tr = elapsedTime s + pollInterval * polls tr' \<and>
     elapsedTime s \<le> elapsedTime s' \<and>
     (runStatus s' = ''completed'' \<or> maxWaitTime \<le> elapsedTime s') \<and>
     (pollInterval dvd elapsedTime s \<longrightarrow> elapsedTime s \<le> maxWaitTime \<longrightarrow>
        pollInterval dvd elapsedTime s' \<and> elapsedTime s' \<le> maxWaitTime)"
proof (induction h ax thread run s tr rule: pollForCompletion.induct)
  case (1 h ax thread run s tr)
  show ?case
  proof (cases "runStatus s \<noteq> ''completed'' \<and> elapsedTime s < maxWaitTime")
    case False
    with "1.prems" have "s' = s" "tr' = tr"
      by (auto simp: pollForCompletion_exit)
    with False show ?thesis by auto
  next
    case True
    obtain r1 tr1 where st: "pollStep h ax thread run s tr = (r1, tr1)"
      by (cases "pollStep h ax thread run s tr")
    show ?thesis
    proof (cases r1)
      case (Inl e)
      with True st "1.prems" show ?thesis by (simp add: pollForCompletion_step)
    next
      case (Inr s1)
      with True st "1.prems" have rec: "pollForCompletion h ax thread run s1 tr1 = (Inr s', tr')"
        by (simp add: pollForCompletion_step)
      note ih = "1.IH" [OF True st [symmetric] Inr rec]
      from st Inr have e: "elapsedTime s1 = elapsedTime s + pollInterval"
        and p: "polls tr1 = Suc (polls tr)"
        by (auto dest: pollStep_state pollStep_polls)
      have d: "pollInterval dvd elapsedTime s \<Longrightarrow> elapsedTime s \<le> maxWaitTime \<Longrightarrow>
               pollInterval dvd elapsedTime s1 \<and> elapsedTime s1 \<le> maxWaitTime"
      proof -
        assume a: "pollInterval dvd elapsedTime s" "elapsedTime s \<le> maxWaitTime"
        then obtain k where k: "elapsedTime s = pollInterval * k" by (auto simp: dvd_def)
        with True have "k < 300" by (simp add: pollInterval_def maxWaitTime_def)
        with k e show ?thesis by (simp add: pollInterval_def maxWaitTime_def)
      qed
      from ih e p d show ?thesis by auto
    qed
  qed
qed

text \<open>Every pass starts with the wait and the fetch of the run, and histories only grow.\<close>

lemma pollStep_trace_start:
  "\<exists>rest. snd (pollStep h ax thread run s tr) =
     tr @ Sleep pollInterval # Request (axiosConfig h GET (runEndpoint thread run) NoData) # rest"
proof -
  let ?fetch = "makeApiCall h (axiosRun ax) GET (runEndpoint thread run) NoData 0
                  (tr @ [Sleep pollInterval])"
  from makeApiCall_trace [of 0 h "axiosRun ax" GET "runEndpoint thread run" NoData
      "tr @ [Sleep pollInterval]"]
  obtain rest where f: "snd ?fetch =
      tr @ Sleep pollInterval # Request (axiosConfig h GET (runEndpoint thread run) NoData) # rest"
    by auto
  obtain r1 tr1 where p: "?fetch = (r1, tr1)" by (cases ?fetch)
  have "snd (pollStep h ax thread run s tr) = tr1 \<or>
        (\<exists>endpoint data. snd (pollStep h ax thread run s tr) =
           snd (makeApiCall h (axiosAny ax) POST endpoint data 0 tr1))"
  proof (cases r1)
    case (Inl e)
    with p show ?thesis by (simp add: pollStep_def Let_def)
  next
    case (Inr cur)
    show ?thesis
    proof (cases "status cur = ''requires_action'' \<and> required_action cur \<noteq> None")
      case False
      with p Inr show ?thesis by (auto simp: pollStep_def Let_def)
    next
      case True
      then obtain action where "required_action cur = Some action" by auto
      with True p Inr have "snd (pollStep h ax thread run s tr) =
          snd (makeApiCall h (axiosAny ax) POST
                 (runEndpoint thread run @ ''/submit_tool_outputs'')
                 (ToolOutputsData (placeholderOutputs (tool_calls (submit_tool_outputs action))))
                 0 tr1)"
        by (auto simp: pollStep_def Let_def split: prod.splits sum.splits)
      then show ?thesis by blast
    qed
  qed
  then show ?thesis
  proof
    assume "snd (pollStep h ax thread run s tr) = tr1"
    with f p show ?thesis by auto
  next
    assume "\<exists>endpoint data. snd (pollStep h ax thread run s tr) =
           snd (makeApiCall h (axiosAny ax) POST endpoint data 0 tr1)"
    then obtain endpoint data where
      "snd (pollStep h ax thread run s tr) =
         snd (makeApiCall h (axiosAny ax) POST endpoint data 0 tr1)"
      by blast
    with makeApiCall_trace [of 0 h "axiosAny ax" POST endpoint data tr1] f p
    show ?thesis by auto
  qed
qed

lemma pollForCompletion_extends:
  "\<exists>ext. snd (pollForCompletion h ax thread run s tr) = tr @ ext"
proof (induction h ax thread run s tr rule: pollForCompletion.induct)
  case (1 h ax thread run s tr)
  show ?case
  proof (cases "runStatus s \<noteq> ''completed'' \<and> elapsedTime s < maxWaitTime")
    case False
    then show ?thesis by (auto simp: pollForCompletion_exit)
  next
    case True
    obtain r1 tr1 where st: "pollStep h ax thread run s tr = (r1, tr1)"
      by (cases "pollStep h ax thread run s tr")
    with pollStep_trace_start [of h ax thread run s tr]
    obtain ext1 where e1: "tr1 = tr @ ext1" by auto
    show ?thesis
    proof (cases r1)
      case (Inl e)
      with True st e1 show ?thesis by (simp add: pollForCompletion_step)
    next
      case (Inr s1)
      from "1.IH" [OF True st [symmetric] Inr]
      obtain ext where "snd (pollForCompletion h ax thread run s1 tr1) = tr1 @ ext" ..
      with True st Inr e1 show ?thesis by (simp add: pollForCompletion_step)
    qed
  qed
qed

lemma pollForCompletion_resumes:
  assumes "runStatus s \<noteq> ''completed''" and "elapsedTime s < maxWaitTime"
  shows "\<exists>rest. snd (pollForCompletion h ax thread run s tr) =
     tr @ Sleep pollInterval # Request (axiosConfig h GET (runEndpoint thread run) NoData) # rest"
proof -
  obtain r1 tr1 where st: "pollStep h ax thread run s tr = (r1, tr1)"
    by (cases "pollStep h ax thread run s tr")
  with pollStep_trace_start [of h ax thread run s tr]
  obtain rest1 where e1: "tr1 =
      tr @ Sleep pollInterval # Request (axiosConfig h GET (runEndpoint thread run) NoData) # rest1"
    by auto
  show ?thesis
  proof (cases r1)
    case (Inl e)
    with assms st e1 show ?thesis by (simp add: pollForCompletion_step)
  next
    case (Inr s1)
    from pollForCompletion_extends [of h ax thread run s1 tr1]
    obtain ext where "snd (pollForCompletion h ax thread run s1 tr1) = tr1 @ ext" ..
    with assms st Inr e1 show ?thesis by (simp add: pollForCompletion_step)
  qed
qed

text \<open>The waits of the loop are charged against what is left of the budget.\<close>

lemma pollForCompletion_waits:
  "polls (snd (pollForCompletion h ax thread run s tr)) = polls tr \<or>
   pollInterval * polls (snd (pollForCompletion h ax thread run s tr)) + elapsedTime s
     < pollInterval * polls tr + maxWaitTime + pollInterval"
proof (induction h ax thread run s tr rule: pollForCompletion.induct)
  case (1 h ax thread run s tr)
  show ?case
  proof (cases "runStatus s \<noteq> ''completed'' \<and> elapsedTime s < maxWaitTime")
    case False
    then show ?thesis by (auto simp: pollForCompletion_exit)
  next
    case True
    obtain r1 tr1 where st: "pollStep h ax thread run s tr = (r1, tr1)"
      by (cases "pollStep h ax thread run s tr")
    then have p: "polls tr1 = Suc (polls tr)" by (rule pollStep_polls)
    show ?thesis
    proof (cases r1)
      case (Inl e)
      with True st have "snd (pollForCompletion h ax thread run s tr) = tr1"
        by (simp add: pollForCompletion_step)
      with p True show ?thesis by simp
    next
      case (Inr s1)
      with st have e: "elapsedTime s1 = elapsedTime s + pollInterval"
        by (auto dest: pollStep_state)
      from True st Inr have eq: "pollForCompletion h ax thread run s tr =
          pollForCompletion h ax thread run s1 tr1"
        by (simp add: pollForCompletion_step)
      from "1.IH" [OF True st [symmetric] Inr] p e True show ?thesis
        unfolding eq by auto
    qed
  qed
qed

text \<open>A service whose runs stay pending: never completed, never failed, nothing to answer.\<close>

lemma pollForCompletion_pending:
  "\<forall>tr. \<exists>r. axiosRun ax tr = Inr r \<and>
              (status r \<noteq> ''completed'' \<and> status r \<noteq> ''failed'' \<and> status r \<noteq> ''cancelled'' \<and>
               status r \<noteq> ''expired'' \<and> required_action r = None) \<Longrightarrow>
   runStatus s \<noteq> ''completed'' \<Longrightarrow>
         \<exists>s' tr'. pollForCompletion h ax thread run s tr = (Inr s', tr') \<and>
                  runStatus s' \<noteq> ''completed''"
proof (induction h ax thread run s tr rule: pollForCompletion.induct)
  case (1 h ax thread run s tr)
  show ?case
  proof (cases "elapsedTime s < maxWaitTime")
    case False
    with "1.prems"(2) show ?thesis by (auto simp: pollForCompletion_exit)
  next
    case True
    from makeApiCall_always_ok [OF "1.prems"(1), of h GET "runEndpoint thread run" NoData 0
        "tr @ [Sleep pollInterval]"]
    obtain cur where f: "makeApiCall h (axiosRun ax) GET (runEndpoint thread run) NoData 0
             (tr @ [Sleep pollInterval]) =
             (Inr cur, (tr @ [Sleep pollInterval]) @
                [Request (axiosConfig h GET (runEndpoint thread run) NoData)])"
      and c: "status cur \<noteq> ''completed''" "status cur \<noteq> ''failed''"
        "status cur \<noteq> ''cancelled''" "status cur \<noteq> ''expired''" "required_action cur = None"
      by blast
    let ?s1 = "\<lparr> runStatus = status cur, currentRun = cur,
                 elapsedTime = elapsedTime s + pollInterval \<rparr>"
    let ?tr1 = "(tr @ [Sleep pollInterval]) @
                  [Request (axiosConfig h GET (runEndpoint thread run) NoData)]"
    from f c have st: "pollStep h ax thread run s tr = (Inr ?s1, ?tr1)"
      by (intro pollStep_pending) auto
    from "1.prems"(2) True
    have g: "runStatus s \<noteq> ''completed'' \<and> elapsedTime s < maxWaitTime" by simp
    from c have "runStatus ?s1 \<noteq> ''completed''" by simp
    from "1.IH" [OF g st [symmetric] refl "1.prems"(1) this]
    obtain s' tr' where r: "pollForCompletion h ax thread run ?s1 ?tr1 = (Inr s', tr')"
      "runStatus s' \<noteq> ''completed''"
      by blast
    moreover from g st have "pollForCompletion h ax thread run s tr =
        pollForCompletion h ax thread run ?s1 ?tr1"
      by (simp add: pollForCompletion_step)
    ultimately show ?thesis by auto
  qed
qed

section \<open>Properties of the invocation\<close>

lemma startRun_emitted:
  "startRun h ax systemPrompt messages tr = (r, tr') \<Longrightarrow> emitted tr' = emitted tr"
  by (auto simp: startRun_def Let_def split: prod.splits sum.splits
      dest!: makeApiCall_emitted)

lemma startRun_polls:
  "startRun h ax systemPrompt messages tr = (r, tr') \<Longrightarrow> polls tr' = polls tr"
  by (auto simp: startRun_def Let_def split: prod.splits sum.splits dest!: makeApiCall_polls)

lemma startRun_submitCalls:
  "startRun h ax systemPrompt messages tr = (r, tr') \<Longrightarrow> submitCalls tr' = submitCalls tr"
proof -
  assume a: "startRun h ax systemPrompt messages tr = (r, tr')"
  let ?c1 = "makeApiCall h (axiosThread ax) POST ''/threads'' EmptyObject 0 tr"
  obtain r1 tr1 where c1: "?c1 = (r1, tr1)" by (cases ?c1)
  from makeApiCall_submitCalls [OF c1 isSubmit_threads]
  have s1: "submitCalls tr1 = submitCalls tr" .
  show ?thesis
  proof (cases r1)
    case (Inl e)
    with a c1 s1 show ?thesis by (simp add: startRun_def)
  next
    case (Inr thread)
    let ?c2 = "makeApiCall h (axiosMessage ax) POST (''/threads/'' @ t_id thread @ ''/messages'')
                 (MessageData ''user'' (constructUserMessage systemPrompt messages)) 0 tr1"
    obtain r2 tr2 where c2: "?c2 = (r2, tr2)" by (cases ?c2)
    have "\<not> isSubmit (axiosConfig h POST (''/threads/'' @ t_id thread @ ''/messages'')
        (MessageData ''user'' (constructUserMessage systemPrompt messages)))"
      using isSubmit_messages [of h "''/threads/'' @ t_id thread"] by simp
    from makeApiCall_submitCalls [OF c2 this] s1
    have s2: "submitCalls tr2 = submitCalls tr" by simp
    show ?thesis
    proof (cases r2)
      case (Inl e)
      with a c1 Inr c2 s2 show ?thesis by (simp add: startRun_def Let_def)
    next
      case r2: (Inr msg)
      let ?c3 = "makeApiCall h (axiosRun ax) POST (''/threads/'' @ t_id thread @ ''/runs'')
                   (RunData (assistantId h)) 0 tr2"
      obtain r3 tr3 where c3: "?c3 = (r3, tr3)" by (cases ?c3)
      have "\<not> isSubmit (axiosConfig h POST (''/threads/'' @ t_id thread @ ''/runs'')
          (RunData (assistantId h)))"
        using isSubmit_runs [of h "''/threads/'' @ t_id thread"] by simp
      from makeApiCall_submitCalls [OF c3 this] s2
      have s3: "submitCalls tr3 = submitCalls tr" by simp
      from a c1 Inr c2 r2 c3 s3 show ?thesis
        by (cases r3) (auto simp: startRun_def Let_def)
    qed
  qed
qed

lemma retrieveMessages_emitted:
  "retrieveMessages h ax thread tr = (r, tr') \<Longrightarrow>
     (\<exists>e. r = Inl e \<and> emitted tr' = emitted tr) \<or>
     (\<exists>t. r = Inr () \<and> emitted tr' = emitted tr @ [TextChunk t, UsageChunk 0 0])"
  by (auto simp: retrieveMessages_def Let_def split: prod.splits sum.splits list.splits
      dest!: makeApiCall_emitted)

lemma retrieveMessages_submitCalls:
  "retrieveMessages h ax thread tr = (r, tr') \<Longrightarrow> submitCalls tr' = submitCalls tr"
  by (auto simp: retrieveMessages_def Let_def split: prod.splits sum.splits list.splits
      dest!: makeApiCall_submitCalls [OF _ isSubmit_GET])

lemma createMessageTry_polling:
  "startRun h ax systemPrompt messages [] = (Inr (thread, run), tr0) \<Longrightarrow>
     createMessageTry h ax systemPrompt messages [] =
       (case pollForCompletion h ax thread run
               \<lparr> runStatus = status run, currentRun = run, elapsedTime = 0 \<rparr> tr0 of
          (Inl e, tr4) \<Rightarrow> (Inl e, tr4)
        | (Inr s, tr4) \<Rightarrow>
            if runStatus s \<noteq> ''completed''
            then (Inl (Error ''Assistant run timeout''), tr4)
            else retrieveMessages h ax thread tr4)"
  by (simp add: createMessageTry_def)

lemma createMessage_catch:
  "assistantId h \<noteq> [] \<Longrightarrow>
     createMessage h ax systemPrompt messages =
       (case createMessageTry h ax systemPrompt messages [] of
          (Inl (Error m), tr) \<Rightarrow> (Inl (Error (providerName @ '' error: '' @ m)), tr)
        | (Inl (NonError v), tr) \<Rightarrow> (Inl (NonError v), tr)
        | (Inr u, tr) \<Rightarrow> (Inr u, tr))"
  by (simp add: createMessage_def)

lemma createMessageTry_emitted:
  "createMessageTry h ax systemPrompt messages [] = (r, tr) \<Longrightarrow>
     (\<exists>e. r = Inl e \<and> emitted tr = []) \<or>
     (\<exists>t. r = Inr () \<and> emitted tr = [TextChunk t, UsageChunk 0 0])"
proof -
  assume a: "createMessageTry h ax systemPrompt messages [] = (r, tr)"
  obtain r0 tr0 where s: "startRun h ax systemPrompt messages [] = (r0, tr0)"
    by (cases "startRun h ax systemPrompt messages []")
  then have e0: "emitted tr0 = []" by (auto dest: startRun_emitted)
  show ?thesis
  proof (cases r0)
    case (Inl e)
    with a s e0 show ?thesis by (auto simp: createMessageTry_def)
  next
    case (Inr p)
    obtain thread run where p: "p = (thread, run)" by (cases p)
    obtain r1 tr1 where l: "pollForCompletion h ax thread run
        \<lparr> runStatus = status run, currentRun = run, elapsedTime = 0 \<rparr> tr0 = (r1, tr1)"
      by (cases "pollForCompletion h ax thread run
        \<lparr> runStatus = status run, currentRun = run, elapsedTime = 0 \<rparr> tr0")
    then have e1: "emitted tr1 = []" using e0 by (auto dest: pollForCompletion_emitted)
    show ?thesis
    proof (cases r1)
      case (Inl e)
      with a s Inr p l e1 show ?thesis by (auto simp: createMessageTry_def)
    next
      case r1: (Inr s1)
      show ?thesis
      proof (cases "runStatus s1 = ''completed''")
        case False
        with a s Inr p l e1 r1 show ?thesis by (auto simp: createMessageTry_def)
      next
        case True
        with a s Inr p l r1 have "retrieveMessages h ax thread tr1 = (r, tr)"
          by (simp add: createMessageTry_def)
        from retrieveMessages_emitted [OF this] e1 show ?thesis by simp
      qed
    qed
  qed
qed

lemma createMessage_emitted:
  "createMessage h ax systemPrompt messages = (r, tr) \<Longrightarrow>
     (\<exists>e. r = Inl e \<and> emitted tr = []) \<or>
     (\<exists>t. r = Inr () \<and> emitted tr = [TextChunk t, UsageChunk 0 0])"
proof (cases "assistantId h = []")
  case True
  assume "createMessage h ax systemPrompt messages = (r, tr)"
  with True show ?thesis by (auto simp: createMessage_def)
next
  case False
  assume a: "createMessage h ax systemPrompt messages = (r, tr)"
  obtain r0 tr0 where t: "createMessageTry h ax systemPrompt messages [] = (r0, tr0)"
    by (cases "createMessageTry h ax systemPrompt messages []")
  from createMessageTry_emitted [OF t] a False t show ?thesis
    by (auto simp: createMessage_catch split: thrown.splits)
qed

text \<open>Where a submit call can come from.\<close>

lemma pollStep_submitCalls_unless:
  assumes "submitCalls (snd (pollStep h ax thread run s tr)) \<noteq> submitCalls tr"
  shows "\<exists>cur tr1 action.
           makeApiCall h (axiosRun ax) GET (runEndpoint thread run) NoData 0
             (tr @ [Sleep pollInterval]) = (Inr cur, tr1) \<and>
           status cur = ''requires_action'' \<and> required_action cur = Some action"
proof -
  obtain r1 tr1 where f: "makeApiCall h (axiosRun ax) GET (runEndpoint thread run) NoData 0
      (tr @ [Sleep pollInterval]) = (r1, tr1)"
    by (cases "makeApiCall h (axiosRun ax) GET (runEndpoint thread run) NoData 0
      (tr @ [Sleep pollInterval])")
  from makeApiCall_submitCalls [OF f isSubmit_GET] have s1: "submitCalls tr1 = submitCalls tr"
    by simp
  show ?thesis
  proof (cases r1)
    case (Inl e)
    with f s1 assms show ?thesis by (simp add: pollStep_def Let_def)
  next
    case (Inr cur)
    show ?thesis
    proof (cases "status cur = ''requires_action'' \<and> required_action cur \<noteq> None")
      case True
      with f Inr show ?thesis by auto
    next
      case False
      with f Inr s1 have "submitCalls (snd (pollStep h ax thread run s tr)) = submitCalls tr"
        by (auto simp: pollStep_def Let_def)
      with assms show ?thesis by simp
    qed
  qed
qed

lemma pollReaches_prepend:
  "pollReaches h ax thread run s1 tr1 s2 tr2 \<Longrightarrow>
   runStatus s \<noteq> ''completed'' \<Longrightarrow> elapsedTime s < maxWaitTime \<Longrightarrow>
   pollStep h ax thread run s tr = (Inr s1, tr1) \<Longrightarrow>
     pollReaches h ax thread run s tr s2 tr2"
proof (induction rule: pollReaches.induct)
  case start
  from pollReaches.start [of h ax thread run s tr] start show ?case
    by (rule pollReaches.step)
next
  case (step sa tra sb trb)
  from step.IH [OF step.prems] step.hyps(2-4) show ?case
    by (rule pollReaches.step)
qed

lemma pollForCompletion_submitCalls_unless:
  "submitCalls (snd (pollForCompletion h ax thread run s tr)) \<noteq> submitCalls tr \<Longrightarrow>
     \<exists>s1 tr1 cur tr2 action.
       pollReaches h ax thread run s tr s1 tr1 \<and>
       runStatus s1 \<noteq> ''completed'' \<and> elapsedTime s1 < maxWaitTime \<and>
       makeApiCall h (axiosRun ax) GET (runEndpoint thread run) NoData 0
         (tr1 @ [Sleep pollInterval]) = (Inr cur, tr2) \<and>
       status cur = ''requires_action'' \<and> required_action cur = Some action"
proof (induction h ax thread run s tr rule: pollForCompletion.induct)
  case (1 h ax thread run s tr)
  show ?case
  proof (cases "runStatus s \<noteq> ''completed'' \<and> elapsedTime s < maxWaitTime")
    case False
    with "1.prems" show ?thesis by (auto simp: pollForCompletion_exit)
  next
    case True
    obtain r1 tr1 where st: "pollStep h ax thread run s tr = (r1, tr1)"
      by (cases "pollStep h ax thread run s tr")
    show ?thesis
    proof (cases "submitCalls tr1 = submitCalls tr")
      case False
      with st have "submitCalls (snd (pollStep h ax thread run s tr)) \<noteq> submitCalls tr"
        by simp
      from pollStep_submitCalls_unless [OF this] True
        pollReaches.start [of h ax thread run s tr]
      show ?thesis by blast
    next
      case same: True
      show ?thesis
      proof (cases r1)
        case (Inl e)
        with True st same "1.prems" show ?thesis by (simp add: pollForCompletion_step)
      next
        case (Inr s1)
        with True st have eq: "pollForCompletion h ax thread run s tr =
            pollForCompletion h ax thread run s1 tr1"
          by (simp add: pollForCompletion_step)
        with "1.prems" same
        have "submitCalls (snd (pollForCompletion h ax thread run s1 tr1)) \<noteq> submitCalls tr1"
          by simp
        from "1.IH" [OF True st [symmetric] Inr this]
        obtain s2 tr2 cur tr3 action where
          r: "pollReaches h ax thread run s1 tr1 s2 tr2" and
          g: "runStatus s2 \<noteq> ''completed''" "elapsedTime s2 < maxWaitTime" and
          f: "makeApiCall h (axiosRun ax) GET (runEndpoint thread run) NoData 0
                (tr2 @ [Sleep pollInterval]) = (Inr cur, tr3)" and
          c: "status cur = ''requires_action''" "required_action cur = Some action"
          by blast
        from True st Inr have "pollReaches h ax thread run s tr s2 tr2"
          by (intro pollReaches_prepend [OF r]) auto
        with g f c show ?thesis by blast
      qed
    qed
  qed
qed

lemma createMessage_submitCalls_unless:
  assumes "submitCalls (snd (createMessage h ax systemPrompt messages)) \<noteq> []"
  shows "\<exists>thread run tr0 s1 tr1 cur tr2 action.
           startRun h ax systemPrompt messages [] = (Inr (thread, run), tr0) \<and>
           pollReaches h ax thread run
             \<lparr> runStatus = status run, currentRun = run, elapsedTime = 0 \<rparr> tr0 s1 tr1 \<and>
           runStatus s1 \<noteq> ''completed'' \<and> elapsedTime s1 < maxWaitTime \<and>
           makeApiCall h (axiosRun ax) GET (runEndpoint thread run) NoData 0
             (tr1 @ [Sleep pollInterval]) = (Inr cur, tr2) \<and>
           status cur = ''requires_action'' \<and> required_action cur = Some action"
proof -
  have id: "assistantId h \<noteq> []"
    using assms by (auto simp: createMessage_def)
  obtain r tr where c: "createMessageTry h ax systemPrompt messages [] = (r, tr)"
    by (cases "createMessageTry h ax systemPrompt messages []")
  with id assms have t: "submitCalls tr \<noteq> []"
    by (auto simp: createMessage_catch split: sum.splits thrown.splits)
  obtain r0 tr0 where s: "startRun h ax systemPrompt messages [] = (r0, tr0)"
    by (cases "startRun h ax systemPrompt messages []")
  then have e0: "submitCalls tr0 = []" by (auto dest: startRun_submitCalls)
  show ?thesis
  proof (cases r0)
    case (Inl e)
    with s e0 c t show ?thesis by (simp add: createMessageTry_def)
  next
    case (Inr p)
    obtain thread run where p: "p = (thread, run)" by (cases p)
    let ?init = "\<lparr> runStatus = status run, currentRun = run, elapsedTime = 0 \<rparr>"
    obtain r1 tr1 where l: "pollForCompletion h ax thread run ?init tr0 = (r1, tr1)"
      by (cases "pollForCompletion h ax thread run ?init tr0")
    have "submitCalls tr1 \<noteq> []"
    proof (cases r1)
      case (Inl e)
      with s Inr p l c t show ?thesis by (simp add: createMessageTry_def)
    next
      case r1: (Inr s1)
      obtain r2 tr2 where m: "retrieveMessages h ax thread tr1 = (r2, tr2)"
        by (cases "retrieveMessages h ax thread tr1")
      from retrieveMessages_submitCalls [OF m] have "submitCalls tr2 = submitCalls tr1" .
      with s Inr p l r1 m c t show ?thesis
        by (auto simp: createMessageTry_def split: if_splits)
    qed
    with l e0 have "submitCalls (snd (pollForCompletion h ax thread run ?init tr0)) \<noteq>
        submitCalls tr0"
      by simp
    from pollForCompletion_submitCalls_unless [OF this] s Inr p show ?thesis by blast
  qed
qed

lemma filter_first:
  "\<forall>m \<in> set earlier. \<not> P m \<Longrightarrow> P latest \<Longrightarrow>
     filter P (earlier @ latest # later) = latest # filter P later"
  by (induction earlier) auto

lemma textContent_values:
  "textContent m =
     join NL (concat (map (\<lambda>c. case cp_text c of
                                   Some t \<Rightarrow> if cp_type c = ''text'' then [text_value t] else []
                                 | None \<Rightarrow> [])
                        (tm_content m)))"
proof -
  have A: "map (\<lambda>c. case cp_text c of Some t \<Rightarrow> text_value t | None \<Rightarrow> [])
          (filter (\<lambda>c. cp_type c = ''text'' \<and> cp_text c \<noteq> None) xs) =
        concat (map (\<lambda>c. case cp_text c of
                             Some t \<Rightarrow> if cp_type c = ''text'' then [text_value t] else []
                           | None \<Rightarrow> []) xs)" for xs :: "ContentPart list"
    by (induction xs) (auto split: option.splits)
  show ?thesis unfolding textContent_def A by (rule refl)
qed

text \<open>Evaluating the examples.\<close>

lemmas example_defs =
  exampleHandler_def mkHandler_def scriptedService_def exampleRun_def exampleThread_def
  exampleMessage_def exampleListing_def polls_def pollInterval_def maxWaitTime_def
  retryDelay_def maxRetries_def providerName_def runEndpoint_def axiosConfig_def
  placeholderOutputs_def constructUserMessage_def flattenMessage_def textContent_def
  completingRun_def failingRun_def expiringRun_def pendingRun_def waitingRun_def toolRun_def
  exampleAction_def userOnlyListing_def brokenService_def exampleConversation_def
  serverError_def rateLimited_def

lemmas run_defs =
  createMessage_def createMessageTry_def startRun_def pollStep_def retrieveMessages_def
  makeApiCall.simps pollForCompletion.simps Let_def

lemma exampleHandler_assistantId: "assistantId exampleHandler \<noteq> []"
  by (simp add: exampleHandler_def mkHandler_def Let_def)

lemma startRun_scripted:
  "startRun exampleHandler (scriptedService runAt listing) systemPrompt messages [] =
     (Inr (exampleThread, runAt 0),
      snd (startRun exampleHandler (scriptedService runAt listing) systemPrompt messages []))"
  by (simp add: startRun_def makeApiCall.simps Let_def scriptedService_def polls_def)

section \<open>The claims about an invocation\<close>

text \<open>
  C2: when the run has reached \<open>completed\<close> by the end of the poll loop and the listing of
  the thread's messages holds an assistant message, the invocation ends normally and has
  emitted exactly two chunks: the text chunk whose text is the values of the text parts of
  the first assistant message of the listing, joined by newlines, and then the usage
  chunk with zero input and zero output tokens.
\<close>

theorem createMessage_completed_run:
  assumes "assistantId h \<noteq> []"
    and "startRun h ax systemPrompt messages [] = (Inr (thread, run), tr0)"
    and "pollForCompletion h ax thread run
           \<lparr> runStatus = status run, currentRun = run, elapsedTime = 0 \<rparr> tr0 = (Inr s, tr1)"
    and "runStatus s = ''completed''"
    and "makeApiCall h (axiosMessagesList ax) GET (''/threads/'' @ t_id thread @ ''/messages'')
           NoData 0 tr1 = (Inr listing, tr2)"
    and "l_data listing = earlier @ latest # later"
    and "\<forall>m \<in> set earlier. tm_role m \<noteq> Assistant"
    and "tm_role latest = Assistant"
  shows "(let answer =
                join NL (concat (map (\<lambda>c. case cp_text c of
                                   Some t \<Rightarrow> if cp_type c = ''text'' then [text_value t] else []
                                 | None \<Rightarrow> [])
                        (tm_content latest)))
          in createMessage h ax systemPrompt messages =
               (Inr (), tr2 @ [Yield (TextChunk answer), Yield (UsageChunk 0 0)]) \<and>
             emitted (snd (createMessage h ax systemPrompt messages)) =
               [TextChunk answer, UsageChunk 0 0])"
proof -
  from assms(6-8)
  have "filter (\<lambda>msg. tm_role msg = Assistant) (l_data listing) =
          latest # filter (\<lambda>msg. tm_role msg = Assistant) later"
    by (simp add: filter_first)
  with assms(5) have "retrieveMessages h ax thread tr1 =
      (Inr (), tr2 @ [Yield (TextChunk (textContent latest)), Yield (UsageChunk 0 0)])"
    by (simp add: retrieveMessages_def Let_def)
  with assms(2-4) have "createMessageTry h ax systemPrompt messages [] =
      (Inr (), tr2 @ [Yield (TextChunk (textContent latest)), Yield (UsageChunk 0 0)])"
    by (simp add: createMessageTry_polling)
  with assms(1) have r: "createMessage h ax systemPrompt messages =
      (Inr (), tr2 @ [Yield (TextChunk (textContent latest)), Yield (UsageChunk 0 0)])"
    by (simp add: createMessage_catch)
  from createMessage_emitted [OF r]
  have "emitted (tr2 @ [Yield (TextChunk (textContent latest)), Yield (UsageChunk 0 0)]) =
          [TextChunk (textContent latest), UsageChunk 0 0]"
    by auto
  with r show ?thesis
    unfolding Let_def textContent_values [symmetric] by simp
qed

theorem createMessage_completed_run_witness:
  "fst (createMessage exampleHandler (scriptedService completingRun exampleListing) ''S''
          exampleConversation) = Inr () \<and>
   emitted (snd (createMessage exampleHandler (scriptedService completingRun exampleListing)
                   ''S'' exampleConversation)) =
     [TextChunk (''Hello'' @ NL @ ''World''), UsageChunk 0 0]"
proof -
  let ?ax = "scriptedService completingRun exampleListing"
  let ?tr0 = "snd (startRun exampleHandler ?ax ''S'' exampleConversation [])"
  let ?init = "\<lparr> runStatus = status (completingRun 0), currentRun = completingRun 0,
                  elapsedTime = 0 \<rparr>"
  let ?loop = "pollForCompletion exampleHandler ?ax exampleThread (completingRun 0) ?init ?tr0"
  let ?list = "makeApiCall exampleHandler (axiosMessagesList ?ax) GET
                 (''/threads/'' @ t_id exampleThread @ ''/messages'') NoData 0 (snd ?loop)"
  have l: "?loop = (Inr \<lparr> runStatus = ''completed'', currentRun = completingRun 2,
                          elapsedTime = 2000 \<rparr>, snd ?loop)"
    by (simp add: run_defs example_defs)
  have m: "?list = (Inr exampleListing, snd ?list)"
    by (simp add: makeApiCall.simps Let_def scriptedService_def)
  have d: "l_data exampleListing = [] @ hd (l_data exampleListing) # tl (l_data exampleListing)"
    by (simp add: exampleListing_def)
  have c: "runStatus \<lparr> runStatus = ''completed'', currentRun = completingRun 2,
                       elapsedTime = 2000 \<rparr> = ''completed''"
    by simp
  have e: "\<forall>m \<in> set []. tm_role m \<noteq> Assistant"
    by simp
  have r: "tm_role (hd (l_data exampleListing)) = Assistant"
    by (simp add: exampleListing_def)
  note w = createMessage_completed_run
    [OF exampleHandler_assistantId startRun_scripted l c m d e r, unfolded Let_def]
  from w [THEN conjunct1] have "fst (createMessage exampleHandler ?ax ''S'' exampleConversation) = Inr ()"
    by simp
  moreover from w [THEN conjunct2]
  have "emitted (snd (createMessage exampleHandler ?ax ''S'' exampleConversation)) =
     [TextChunk (''Hello'' @ NL @ ''World''), UsageChunk 0 0]"
    by (simp add: exampleListing_def)
  ultimately show ?thesis by simp
qed

text \<open>
  C3: when the configured assistant identifier is unset or empty, the invocation throws
  \<open>OpenAI Assistant ID is required\<close> with an empty history: no request was issued, whatever
  the other settings, the conversation and the service are.
\<close>

theorem createMessage_requires_assistantId:
  "openAiAssistantId opts = None \<or> openAiAssistantId opts = Some [] \<Longrightarrow>
     createMessage (mkHandler DEFAULT_HEADERS apiRequestTimeout opts) ax systemPrompt messages =
       (Inl (Error ''OpenAI Assistant ID is required''), [])"
  by (auto simp: createMessage_def mkHandler_def Let_def)

theorem createMessage_requires_assistantId_witness:
  "openAiAssistantId \<lparr> openAiAssistantBaseUrl = None, openAiAssistantApiKey = Some ''sk-test'',
                       openAiAssistantId = Some [] \<rparr> = Some [] \<and>
   createMessage
     (mkHandler [] 600000
        \<lparr> openAiAssistantBaseUrl = None, openAiAssistantApiKey = Some ''sk-test'',
          openAiAssistantId = Some [] \<rparr>)
     \<lparr> axiosThread = (\<lambda>tr. Inl serverError), axiosMessage = (\<lambda>tr. Inl serverError),
       axiosRun = (\<lambda>tr. Inl serverError), axiosMessagesList = (\<lambda>tr. Inl serverError),
       axiosAny = (\<lambda>tr. Inl serverError) \<rparr>
     ''You are helpful.'' [\<lparr> role = User, content = StringContent ''hi'' \<rparr>] =
       (Inl (Error ''OpenAI Assistant ID is required''), [])"
  using createMessage_requires_assistantId
    [of "\<lparr> openAiAssistantBaseUrl = None, openAiAssistantApiKey = Some ''sk-test'',
          openAiAssistantId = Some [] \<rparr>" "[]" 600000
        "\<lparr> axiosThread = (\<lambda>tr. Inl serverError), axiosMessage = (\<lambda>tr. Inl serverError),
           axiosRun = (\<lambda>tr. Inl serverError), axiosMessagesList = (\<lambda>tr. Inl serverError),
           axiosAny = (\<lambda>tr. Inl serverError) \<rparr>"
        "''You are helpful.''" "[\<lparr> role = User, content = StringContent ''hi'' \<rparr>]"]
  by simp

text \<open>
  C5, as the spec states it, fails: a run whose status never becomes \<open>completed\<close> need not
  end in the timeout error. Here the run is \<open>queued\<close>, then \<open>in_progress\<close>, then \<open>expired\<close>;
  the invocation ends at the second poll with the run-failure error.
\<close>

theorem createMessage_expired_run_is_no_timeout:
  "fst (createMessage exampleHandler (scriptedService expiringRun exampleListing) ''S''
          exampleConversation) =
     Inl (Error ''OpenAI Assistant error: Assistant run expired: No error details available'') \<and>
   polls (snd (createMessage exampleHandler (scriptedService expiringRun exampleListing) ''S''
                 exampleConversation)) = 2 \<and>
   status (expiringRun 0) = ''queued'' \<and> status (expiringRun 1) = ''in_progress'' \<and>
   status (expiringRun 2) = ''expired''"
  by (simp add: run_defs example_defs)

text \<open>
  C5, amended: when no error is raised before the poll loop ends, and the run status is not
  \<open>completed\<close> when it ends, the invocation fails with the timeout error and has emitted
  nothing; the accumulated time is then 300000 ms, after exactly 300 waits of 1000 ms.
  From any point of the loop, a normal end without \<open>completed\<close> means the accumulated time
  has reached 300000 ms.
\<close>

theorem createMessage_timeout:
  assumes "assistantId h \<noteq> []"
    and "startRun h ax systemPrompt messages [] = (Inr (thread, run), tr0)"
    and "pollForCompletion h ax thread run
           \<lparr> runStatus = status run, currentRun = run, elapsedTime = 0 \<rparr> tr0 = (Inr s, tr1)"
    and "runStatus s \<noteq> ''completed''"
  shows "createMessage h ax systemPrompt messages =
           (Inl (Error ''OpenAI Assistant error: Assistant run timeout''), tr1) \<and>
         emitted tr1 = [] \<and> elapsedTime s = 300000 \<and> polls tr1 = 300 \<and>
         (\<forall>s0 tr s' tr'. pollForCompletion h ax thread run s0 tr = (Inr s', tr') \<and>
                          runStatus s' \<noteq> ''completed'' \<longrightarrow> 300000 \<le> elapsedTime s')"
proof -
  from assms(2-4) have "createMessageTry h ax systemPrompt messages [] =
      (Inl (Error ''Assistant run timeout''), tr1)"
    by (simp add: createMessageTry_polling)
  with assms(1) have r: "createMessage h ax systemPrompt messages =
      (Inl (Error (providerName @ '' error: '' @ ''Assistant run timeout'')), tr1)"
    by (simp add: createMessage_catch)
  from createMessage_emitted [OF r] have e: "emitted tr1 = []" by auto
  from startRun_polls [OF assms(2)] have p0: "polls tr0 = 0" by simp
  from pollForCompletion_budget [OF assms(3)] assms(4) p0
  have b: "elapsedTime s = pollInterval * polls tr1" "maxWaitTime \<le> elapsedTime s"
    "elapsedTime s \<le> maxWaitTime"
    by auto
  then have t: "elapsedTime s = 300000" by (simp add: maxWaitTime_def)
  with b(1) have p: "polls tr1 = 300" by (simp add: pollInterval_def)
  have g: "\<forall>s0 tr s' tr'. pollForCompletion h ax thread run s0 tr = (Inr s', tr') \<and>
                          runStatus s' \<noteq> ''completed'' \<longrightarrow> 300000 \<le> elapsedTime s'"
    using pollForCompletion_budget by (fastforce simp: maxWaitTime_def)
  from r e t p g show ?thesis by (simp add: providerName_def)
qed

theorem createMessage_timeout_witness:
  "fst (createMessage exampleHandler (scriptedService pendingRun exampleListing) ''S''
          exampleConversation) =
     Inl (Error ''OpenAI Assistant error: Assistant run timeout'') \<and>
   emitted (snd (createMessage exampleHandler (scriptedService pendingRun exampleListing) ''S''
                   exampleConversation)) = [] \<and>
   polls (snd (createMessage exampleHandler (scriptedService pendingRun exampleListing) ''S''
                 exampleConversation)) = 300"
proof -
  let ?ax = "scriptedService pendingRun exampleListing"
  let ?tr0 = "snd (startRun exampleHandler ?ax ''S'' exampleConversation [])"
  let ?init = "\<lparr> runStatus = status (pendingRun 0), currentRun = pendingRun 0,
                  elapsedTime = 0 \<rparr>"
  have pend: "\<forall>tr. \<exists>r. axiosRun ?ax tr = Inr r \<and>
      (status r \<noteq> ''completed'' \<and> status r \<noteq> ''failed'' \<and> status r \<noteq> ''cancelled'' \<and>
       status r \<noteq> ''expired'' \<and> required_action r = None)"
    by (simp add: scriptedService_def pendingRun_def exampleRun_def)
  have "runStatus ?init \<noteq> ''completed''"
    by (simp add: pendingRun_def exampleRun_def)
  from pollForCompletion_pending [OF pend this]
  obtain s tr1 where l: "pollForCompletion exampleHandler ?ax exampleThread (pendingRun 0)
      ?init ?tr0 = (Inr s, tr1)" and n: "runStatus s \<noteq> ''completed''"
    by blast
  from createMessage_timeout [OF exampleHandler_assistantId startRun_scripted l n]
  show ?thesis by simp
qed

text \<open>
  C6: in a pass of the poll loop that fetches a run with status \<open>requires_action\<close> and a
  \<open>required_action\<close> payload, the next request is the POST to \<open>submit_tool_outputs\<close> with
  one output per listed tool call, pairing its identifier with
  \<open>Tool execution not implemented\<close> (sent again only after a 429, at most twice). When the
  pass ends normally the loop goes on from the accumulated time plus 1000 ms, not from
  zero: while that is below the ceiling, the next events after the submission are the
  wait of 1000 ms and the fetch of the run; and all the waits from this pass on fit in
  what was left of the 300000 ms when the pass began.
\<close>

theorem pollStep_submits_placeholders:
  assumes "runStatus s \<noteq> ''completed''" and "elapsedTime s < maxWaitTime"
    and "makeApiCall h (axiosRun ax) GET (runEndpoint thread run) NoData 0
           (tr @ [Sleep pollInterval]) = (Inr cur, tr1)"
    and "status cur = ''requires_action''"
    and "required_action cur = Some action"
  shows "(let outputs = map (\<lambda>call. \<lparr> tool_call_id = tc_id call,
                                       tool_output = ''Tool execution not implemented'' \<rparr>)
                          (tool_calls (submit_tool_outputs action));
              submit = Request (axiosConfig h POST
                         (''/threads/'' @ t_id thread @ ''/runs/'' @ r_id run @
                          ''/submit_tool_outputs'') (ToolOutputsData outputs));
              fetch = Request (axiosConfig h GET
                         (''/threads/'' @ t_id thread @ ''/runs/'' @ r_id run) NoData);
              tr2 = snd (pollStep h ax thread run s tr);
              final = snd (pollForCompletion h ax thread run s tr)
          in length outputs = length (tool_calls (submit_tool_outputs action)) \<and>
             (\<exists>n\<le>2. tr2 = tr1 @ submit # concat (replicate n [Sleep 60000, submit])) \<and>
             (\<forall>s'. fst (pollStep h ax thread run s tr) = Inr s' \<longrightarrow>
                   s' = \<lparr> runStatus = ''requires_action'', currentRun = cur,
                          elapsedTime = elapsedTime s + 1000 \<rparr> \<and>
                   pollForCompletion h ax thread run s tr =
                     pollForCompletion h ax thread run s' tr2) \<and>
             (\<forall>s'. fst (pollStep h ax thread run s tr) = Inr s' \<and>
                   elapsedTime s + 1000 < 300000 \<longrightarrow>
                   (\<exists>rest. final = tr2 @ Sleep 1000 # fetch # rest)) \<and>
             1000 * polls final + elapsedTime s < 1000 * polls tr2 + 300000)"
proof -
  let ?outputs = "map (\<lambda>call. \<lparr> tool_call_id = tc_id call,
                                 tool_output = ''Tool execution not implemented'' \<rparr>)
                    (tool_calls (submit_tool_outputs action))"
  let ?url = "''/threads/'' @ t_id thread @ ''/runs/'' @ r_id run @ ''/submit_tool_outputs''"
  let ?submit = "Request (axiosConfig h POST ?url (ToolOutputsData ?outputs))"
  let ?fetch = "Request (axiosConfig h GET
                  (''/threads/'' @ t_id thread @ ''/runs/'' @ r_id run) NoData)"
  let ?call = "makeApiCall h (axiosAny ax) POST ?url (ToolOutputsData ?outputs) 0 tr1"
  let ?tr2 = "snd (pollStep h ax thread run s tr)"
  let ?final = "snd (pollForCompletion h ax thread run s tr)"
  let ?s' = "\<lparr> runStatus = ''requires_action'', currentRun = cur,
               elapsedTime = elapsedTime s + 1000 \<rparr>"
  have step: "pollStep h ax thread run s tr =
      (case ?call of
         (Inl e, tr3) \<Rightarrow> (Inl e, tr3)
       | (Inr u, tr3) \<Rightarrow> (Inr ?s', tr3))"
    using assms(3-5)
    by (simp add: pollStep_def Let_def runEndpoint_def placeholderOutputs_def pollInterval_def)
  then have tr2: "?tr2 = snd ?call"
    by (auto split: prod.splits sum.splits)
  from makeApiCall_trace [of 0 h "axiosAny ax" POST ?url "ToolOutputsData ?outputs" tr1]
  have "\<exists>n\<le>2. snd ?call = tr1 @ ?submit # concat (replicate n [Sleep 60000, ?submit])"
    by (simp add: maxRetries_def retryDelay_def)
  with tr2 have a: "\<exists>n\<le>2. ?tr2 = tr1 @ ?submit # concat (replicate n [Sleep 60000, ?submit])"
    by simp
  have next_state: "s' = ?s' \<and>
      pollForCompletion h ax thread run s tr = pollForCompletion h ax thread run s' ?tr2"
    if f: "fst (pollStep h ax thread run s tr) = Inr s'" for s'
  proof -
    obtain r tr2 where p: "pollStep h ax thread run s tr = (r, tr2)"
      by (cases "pollStep h ax thread run s tr")
    with f have r: "r = Inr s'" by simp
    from f step have "s' = ?s'"
      by (auto split: prod.splits sum.splits)
    moreover from assms(1,2) p r
    have "pollForCompletion h ax thread run s tr = pollForCompletion h ax thread run s' tr2"
      by (simp add: pollForCompletion_step)
    with p have "pollForCompletion h ax thread run s tr =
        pollForCompletion h ax thread run s' ?tr2"
      by simp
    ultimately show ?thesis by simp
  qed
  have resume: "\<exists>rest. ?final = ?tr2 @ Sleep 1000 # ?fetch # rest"
    if f: "fst (pollStep h ax thread run s tr) = Inr s'" and b: "elapsedTime s + 1000 < 300000"
    for s'
  proof -
    from next_state [OF f] have s': "s' = ?s'"
      and eq: "?final = snd (pollForCompletion h ax thread run s' ?tr2)"
      by simp_all
    from s' b have "runStatus s' \<noteq> ''completed''" "elapsedTime s' < maxWaitTime"
      by (simp_all add: maxWaitTime_def)
    from pollForCompletion_resumes [OF this, of h ax thread run ?tr2] eq
    show ?thesis by (simp add: pollInterval_def runEndpoint_def)
  qed
  have bound: "1000 * polls ?final + elapsedTime s < 1000 * polls ?tr2 + 300000"
  proof (cases "fst (pollStep h ax thread run s tr)")
    case (Inl e)
    obtain r tr2 where p: "pollStep h ax thread run s tr = (r, tr2)"
      by (cases "pollStep h ax thread run s tr")
    with Inl have "r = Inl e" by simp
    with assms(1,2) p have "?final = tr2"
      by (simp add: pollForCompletion_step)
    with p assms(2) show ?thesis by (simp add: maxWaitTime_def)
  next
    case (Inr s')
    from next_state [OF Inr] have s': "elapsedTime s' = elapsedTime s + 1000"
      and eq: "?final = snd (pollForCompletion h ax thread run s' ?tr2)"
      by simp_all
    from pollForCompletion_waits [of h ax thread run s' ?tr2] s' assms(2) show ?thesis
      unfolding eq by (auto simp: pollInterval_def maxWaitTime_def)
  qed
  from a next_state resume bound show ?thesis unfolding Let_def by simp
qed

theorem pollStep_submits_placeholders_witness:
  "(let s0 = \<lparr> runStatus = ''queued'', currentRun = exampleRun ''queued'', elapsedTime = 0 \<rparr>;
        ax = scriptedService toolRun exampleListing;
        outputs = [\<lparr> tool_call_id = ''call_1'', tool_output = ''Tool execution not implemented'' \<rparr>,
                   \<lparr> tool_call_id = ''call_2'', tool_output = ''Tool execution not implemented'' \<rparr>];
        fetch = Request (axiosConfig exampleHandler GET ''/threads/thread_1/runs/run_1'' NoData);
        submit = Request (axiosConfig exampleHandler POST
                   ''/threads/thread_1/runs/run_1/submit_tool_outputs'' (ToolOutputsData outputs))
    in (\<exists>n\<le>2. snd (pollStep exampleHandler ax exampleThread (exampleRun ''queued'') s0 []) =
                 [Sleep 1000, fetch] @ submit # concat (replicate n [Sleep 60000, submit])) \<and>
       fst (pollStep exampleHandler ax exampleThread (exampleRun ''queued'') s0 []) =
         Inr \<lparr> runStatus = ''requires_action'', currentRun = toolRun 1, elapsedTime = 1000 \<rparr> \<and>
       (\<exists>rest. snd (pollForCompletion exampleHandler ax exampleThread (exampleRun ''queued'')
                      s0 []) =
                snd (pollStep exampleHandler ax exampleThread (exampleRun ''queued'') s0 []) @
                  Sleep 1000 # fetch # rest) \<and>
       pollForCompletion exampleHandler ax exampleThread (exampleRun ''queued'') s0 [] =
         (Inr \<lparr> runStatus = ''completed'', currentRun = toolRun 2, elapsedTime = 2000 \<rparr>,
          [Sleep 1000, fetch, submit, Sleep 1000, fetch]))"
proof -
  let ?s0 = "\<lparr> runStatus = ''queued'', currentRun = exampleRun ''queued'', elapsedTime = 0 \<rparr>"
  let ?ax = "scriptedService toolRun exampleListing"
  let ?fetch = "Request (axiosConfig exampleHandler GET ''/threads/thread_1/runs/run_1'' NoData)"
  have g: "runStatus ?s0 \<noteq> ''completed''" "elapsedTime ?s0 < maxWaitTime"
    by (simp_all add: maxWaitTime_def)
  have f: "makeApiCall exampleHandler (axiosRun ?ax) GET
             (runEndpoint exampleThread (exampleRun ''queued'')) NoData 0
             ([] @ [Sleep pollInterval]) = (Inr (toolRun 1), [Sleep 1000, ?fetch])"
    by (simp add: makeApiCall.simps Let_def scriptedService_def polls_def pollInterval_def
        runEndpoint_def exampleThread_def exampleRun_def)
  have st: "status (toolRun 1) = ''requires_action''"
    and ra: "required_action (toolRun 1) = Some exampleAction"
    by (simp_all add: toolRun_def exampleRun_def)
  have e: "fst (pollStep exampleHandler ?ax exampleThread (exampleRun ''queued'') ?s0 []) =
      Inr \<lparr> runStatus = ''requires_action'', currentRun = toolRun 1, elapsedTime = 1000 \<rparr>"
    by (simp add: pollStep_def makeApiCall.simps Let_def scriptedService_def polls_def
        pollInterval_def runEndpoint_def exampleThread_def exampleRun_def toolRun_def)
  have l: "pollForCompletion exampleHandler ?ax exampleThread (exampleRun ''queued'') ?s0 [] =
      (Inr \<lparr> runStatus = ''completed'', currentRun = toolRun 2, elapsedTime = 2000 \<rparr>,
       [Sleep 1000, ?fetch,
        Request (axiosConfig exampleHandler POST
          ''/threads/thread_1/runs/run_1/submit_tool_outputs''
          (ToolOutputsData
            [\<lparr> tool_call_id = ''call_1'', tool_output = ''Tool execution not implemented'' \<rparr>,
             \<lparr> tool_call_id = ''call_2'', tool_output = ''Tool execution not implemented'' \<rparr>])),
        Sleep 1000, ?fetch])"
    by (simp add: pollForCompletion.simps pollStep_def makeApiCall.simps Let_def
        scriptedService_def polls_def pollInterval_def maxWaitTime_def runEndpoint_def
        exampleThread_def exampleRun_def toolRun_def exampleAction_def placeholderOutputs_def
        axiosConfig_def)
  note t = pollStep_submits_placeholders [OF g f st ra, unfolded Let_def]
  have "\<exists>n\<le>2. snd (pollStep exampleHandler ?ax exampleThread (exampleRun ''queued'')
        ?s0 []) =
      [Sleep 1000, ?fetch] @
        Request (axiosConfig exampleHandler POST
          ''/threads/thread_1/runs/run_1/submit_tool_outputs''
          (ToolOutputsData
            [\<lparr> tool_call_id = ''call_1'', tool_output = ''Tool execution not implemented'' \<rparr>,
             \<lparr> tool_call_id = ''call_2'', tool_output = ''Tool execution not implemented'' \<rparr>])) #
        concat (replicate n [Sleep 60000,
          Request (axiosConfig exampleHandler POST
            ''/threads/thread_1/runs/run_1/submit_tool_outputs''
            (ToolOutputsData
              [\<lparr> tool_call_id = ''call_1'', tool_output = ''Tool execution not implemented'' \<rparr>,
               \<lparr> tool_call_id = ''call_2'', tool_output = ''Tool execution not implemented'' \<rparr>]))])"
    using t [THEN conjunct2, THEN conjunct1]
    by (simp add: exampleAction_def exampleThread_def exampleRun_def)
  moreover
  have "\<exists>rest. snd (pollForCompletion exampleHandler ?ax exampleThread (exampleRun ''queued'')
                      ?s0 []) =
                snd (pollStep exampleHandler ?ax exampleThread (exampleRun ''queued'') ?s0 []) @
                  Sleep 1000 # ?fetch # rest"
    using t [THEN conjunct2, THEN conjunct2, THEN conjunct2, THEN conjunct1, rule_format,
        of "\<lparr> runStatus = ''requires_action'', currentRun = toolRun 1, elapsedTime = 1000 \<rparr>"] e
    by (simp add: exampleThread_def exampleRun_def)
  ultimately show ?thesis using e l by (simp add: Let_def)
qed

text \<open>
  C7: when a pass of the poll loop of an invocation fetches a run whose status is \<open>failed\<close>,
  \<open>cancelled\<close> or \<open>expired\<close>, the invocation throws an error naming the status and, after
  it, the code and message of \<open>last_error\<close> when present and \<open>No error details available\<close>
  otherwise; nothing has been emitted.
\<close>

theorem createMessage_run_failure:
  assumes "assistantId h \<noteq> []"
    and "startRun h ax systemPrompt messages [] = (Inr (thread, run), tr0)"
    and "pollReaches h ax thread run
           \<lparr> runStatus = status run, currentRun = run, elapsedTime = 0 \<rparr> tr0 s tr"
    and "runStatus s \<noteq> ''completed''" and "elapsedTime s < maxWaitTime"
    and "makeApiCall h (axiosRun ax) GET (runEndpoint thread run) NoData 0
           (tr @ [Sleep pollInterval]) = (Inr cur, tr')"
    and "status cur = ''failed'' \<or> status cur = ''cancelled'' \<or> status cur = ''expired''"
  shows "createMessage h ax systemPrompt messages =
           (Inl (Error (''OpenAI Assistant error: Assistant run '' @ status cur @ '': '' @
                    (case last_error cur of
                       Some le \<Rightarrow> le_code le @ '': '' @ le_message le
                     | None \<Rightarrow> ''No error details available''))), tr') \<and>
         emitted tr' = []"
proof -
  let ?msg = "''Assistant run '' @ status cur @ '': '' @
                (case last_error cur of
                   Some le \<Rightarrow> le_code le @ '': '' @ le_message le
                 | None \<Rightarrow> ''No error details available'')"
  from assms(6,7) have "pollStep h ax thread run s tr = (Inl (Error ?msg), tr')"
    by (auto simp: pollStep_def Let_def)
  with assms(4,5) have "pollForCompletion h ax thread run s tr = (Inl (Error ?msg), tr')"
    by (simp add: pollForCompletion_step)
  with pollReaches_same_result [OF assms(3)]
  have "pollForCompletion h ax thread run
          \<lparr> runStatus = status run, currentRun = run, elapsedTime = 0 \<rparr> tr0 =
        (Inl (Error ?msg), tr')"
    by simp
  with assms(2) have "createMessageTry h ax systemPrompt messages [] = (Inl (Error ?msg), tr')"
    by (simp add: createMessageTry_polling)
  with assms(1) have r: "createMessage h ax systemPrompt messages =
      (Inl (Error (providerName @ '' error: '' @ ?msg)), tr')"
    by (simp add: createMessage_catch)
  from createMessage_emitted [OF r] have "emitted tr' = []" by auto
  with r show ?thesis by (simp add: providerName_def)
qed

theorem createMessage_run_failure_witness:
  "fst (createMessage exampleHandler (scriptedService failingRun exampleListing) ''S''
          exampleConversation) =
     Inl (Error ''OpenAI Assistant error: Assistant run failed: server_error: boom'') \<and>
   emitted (snd (createMessage exampleHandler (scriptedService failingRun exampleListing) ''S''
                   exampleConversation)) = []"
proof -
  let ?ax = "scriptedService failingRun exampleListing"
  let ?tr0 = "snd (startRun exampleHandler ?ax ''S'' exampleConversation [])"
  let ?init = "\<lparr> runStatus = status (failingRun 0), currentRun = failingRun 0,
                  elapsedTime = 0 \<rparr>"
  let ?fetch = "makeApiCall exampleHandler (axiosRun ?ax) GET
                  (runEndpoint exampleThread (failingRun 0)) NoData 0 (?tr0 @ [Sleep pollInterval])"
  have r: "pollReaches exampleHandler ?ax exampleThread (failingRun 0) ?init ?tr0 ?init ?tr0"
    by (rule pollReaches.start)
  have g: "runStatus ?init \<noteq> ''completed''" "elapsedTime ?init < maxWaitTime"
    by (simp_all add: maxWaitTime_def failingRun_def exampleRun_def)
  have f: "?fetch = (Inr (failingRun 1), snd ?fetch)"
    by (simp add: startRun_def makeApiCall.simps Let_def scriptedService_def polls_def
        pollInterval_def)
  have st: "status (failingRun 1) = ''failed'' \<or> status (failingRun 1) = ''cancelled'' \<or>
            status (failingRun 1) = ''expired''"
    by (simp add: failingRun_def exampleRun_def)
  from createMessage_run_failure [OF exampleHandler_assistantId startRun_scripted r g f st]
  show ?thesis
    by (simp add: failingRun_def exampleRun_def)
qed

text \<open>
  C8: when the run has completed and the listing holds no assistant message, the invocation
  throws \<open>No assistant response found\<close> (under the provider's name) and has emitted
  nothing. In every invocation, either an error is thrown and nothing was emitted, or the
  invocation ends normally having emitted one text chunk and then one usage chunk with
  zero counts.
\<close>

theorem createMessage_no_assistant_response:
  "(assistantId h \<noteq> [] \<and>
    startRun h ax systemPrompt messages [] = (Inr (thread, run), tr0) \<and>
    pollForCompletion h ax thread run
      \<lparr> runStatus = status run, currentRun = run, elapsedTime = 0 \<rparr> tr0 = (Inr s, tr1) \<and>
    runStatus s = ''completed'' \<and>
    makeApiCall h (axiosMessagesList ax) GET (''/threads/'' @ t_id thread @ ''/messages'')
      NoData 0 tr1 = (Inr listing, tr2) \<and>
    (\<forall>m \<in> set (l_data listing). tm_role m \<noteq> Assistant) \<longrightarrow>
      createMessage h ax systemPrompt messages =
        (Inl (Error ''OpenAI Assistant error: No assistant response found''), tr2) \<and>
      emitted tr2 = []) \<and>
   ((\<exists>e. fst (createMessage h ax systemPrompt messages) = Inl e \<and>
         emitted (snd (createMessage h ax systemPrompt messages)) = []) \<or>
    (\<exists>t. fst (createMessage h ax systemPrompt messages) = Inr () \<and>
         emitted (snd (createMessage h ax systemPrompt messages)) =
           [TextChunk t, UsageChunk 0 0]))"
proof (intro conjI impI)
  assume a: "assistantId h \<noteq> [] \<and>
    startRun h ax systemPrompt messages [] = (Inr (thread, run), tr0) \<and>
    pollForCompletion h ax thread run
      \<lparr> runStatus = status run, currentRun = run, elapsedTime = 0 \<rparr> tr0 = (Inr s, tr1) \<and>
    runStatus s = ''completed'' \<and>
    makeApiCall h (axiosMessagesList ax) GET (''/threads/'' @ t_id thread @ ''/messages'')
      NoData 0 tr1 = (Inr listing, tr2) \<and>
    (\<forall>m \<in> set (l_data listing). tm_role m \<noteq> Assistant)"
  then have "filter (\<lambda>msg. tm_role msg = Assistant) (l_data listing) = []"
    by (simp add: filter_empty_conv)
  with a have "retrieveMessages h ax thread tr1 =
      (Inl (Error ''No assistant response found''), tr2)"
    by (simp add: retrieveMessages_def Let_def)
  with a have "createMessageTry h ax systemPrompt messages [] =
      (Inl (Error ''No assistant response found''), tr2)"
    by (simp add: createMessageTry_polling)
  with a have r: "createMessage h ax systemPrompt messages =
      (Inl (Error (providerName @ '' error: '' @ ''No assistant response found'')), tr2)"
    by (simp add: createMessage_catch)
  then show "createMessage h ax systemPrompt messages =
        (Inl (Error ''OpenAI Assistant error: No assistant response found''), tr2)"
    by (simp add: providerName_def)
  from createMessage_emitted [OF r] show "emitted tr2 = []" by auto
next
  obtain r tr where c: "createMessage h ax systemPrompt messages = (r, tr)"
    by (cases "createMessage h ax systemPrompt messages")
  from createMessage_emitted [OF c] c
  show "(\<exists>e. fst (createMessage h ax systemPrompt messages) = Inl e \<and>
         emitted (snd (createMessage h ax systemPrompt messages)) = []) \<or>
    (\<exists>t. fst (createMessage h ax systemPrompt messages) = Inr () \<and>
         emitted (snd (createMessage h ax systemPrompt messages)) =
           [TextChunk t, UsageChunk 0 0])"
    by auto
qed

theorem createMessage_no_assistant_response_witness:
  "fst (createMessage exampleHandler (scriptedService completingRun userOnlyListing) ''S''
          exampleConversation) =
     Inl (Error ''OpenAI Assistant error: No assistant response found'') \<and>
   emitted (snd (createMessage exampleHandler (scriptedService completingRun userOnlyListing)
                   ''S'' exampleConversation)) = []"
proof -
  let ?ax = "scriptedService completingRun userOnlyListing"
  let ?tr0 = "snd (startRun exampleHandler ?ax ''S'' exampleConversation [])"
  let ?init = "\<lparr> runStatus = status (completingRun 0), currentRun = completingRun 0,
                  elapsedTime = 0 \<rparr>"
  let ?loop = "pollForCompletion exampleHandler ?ax exampleThread (completingRun 0) ?init ?tr0"
  let ?list = "makeApiCall exampleHandler (axiosMessagesList ?ax) GET
                 (''/threads/'' @ t_id exampleThread @ ''/messages'') NoData 0 (snd ?loop)"
  have l: "?loop = (Inr \<lparr> runStatus = ''completed'', currentRun = completingRun 2,
                          elapsedTime = 2000 \<rparr>, snd ?loop)"
    by (simp add: run_defs example_defs)
  have m: "?list = (Inr userOnlyListing, snd ?list)"
    by (simp add: makeApiCall.simps Let_def scriptedService_def)
  have c: "runStatus \<lparr> runStatus = ''completed'', currentRun = completingRun 2,
                       elapsedTime = 2000 \<rparr> = ''completed''"
    by simp
  have e: "\<forall>m \<in> set (l_data userOnlyListing). tm_role m \<noteq> Assistant"
    by (simp add: userOnlyListing_def)
  from createMessage_no_assistant_response
    [of exampleHandler ?ax "''S''" exampleConversation exampleThread "completingRun 0" ?tr0
        _ "snd ?loop" userOnlyListing "snd ?list"]
    exampleHandler_assistantId startRun_scripted [of completingRun userOnlyListing] l c m e
  have "createMessage exampleHandler ?ax ''S'' exampleConversation =
        (Inl (Error ''OpenAI Assistant error: No assistant response found''), snd ?list) \<and>
      emitted (snd ?list) = []"
    by blast
  then show ?thesis by simp
qed

text \<open>
  C9: whenever an invocation throws an \<open>Error\<close>, its message starts with the provider's
  display name \<open>OpenAI Assistant\<close>. The missing-identifier error is thrown before the \<open>try\<close>
  block with the fixed message \<open>OpenAI Assistant ID is required\<close>; every other error comes
  out of the \<open>catch\<close> as \<open>OpenAI Assistant error: \<close> followed by the message of the error
  raised inside. (A thrown value that is not an \<open>Error\<close> is rethrown as it is.)
\<close>

theorem createMessage_error_wrapped:
  "createMessage h ax systemPrompt messages = (Inl (Error m), tr) \<Longrightarrow>
     prefix ''OpenAI Assistant'' m \<and>
     (assistantId h = [] \<and> m = ''OpenAI Assistant ID is required'' \<and> tr = [] \<or>
      assistantId h \<noteq> [] \<and>
      (\<exists>inner. createMessageTry h ax systemPrompt messages [] = (Inl (Error inner), tr) \<and>
               m = ''OpenAI Assistant error: '' @ inner))"
proof (cases "assistantId h = []")
  case True
  assume "createMessage h ax systemPrompt messages = (Inl (Error m), tr)"
  with True show ?thesis by (auto simp: createMessage_def)
next
  case False
  assume a: "createMessage h ax systemPrompt messages = (Inl (Error m), tr)"
  obtain r0 tr0 where t: "createMessageTry h ax systemPrompt messages [] = (r0, tr0)"
    by (cases "createMessageTry h ax systemPrompt messages []")
  with a False have "\<exists>inner. r0 = Inl (Error inner) \<and> tr0 = tr \<and>
      m = providerName @ '' error: '' @ inner"
    by (auto simp: createMessage_catch split: sum.splits thrown.splits)
  with t False show ?thesis by (auto simp: providerName_def)
qed

theorem createMessage_error_wrapped_witness:
  "createMessage exampleHandler brokenService ''S'' exampleConversation =
     (Inl (Error ''OpenAI Assistant error: OpenAI Assistant API error: Request failed with status code 500''),
      [Request (axiosConfig exampleHandler POST ''/threads'' EmptyObject)]) \<and>
   prefix ''OpenAI Assistant''
     ''OpenAI Assistant error: OpenAI Assistant API error: Request failed with status code 500''"
proof -
  have c: "createMessage exampleHandler brokenService ''S'' exampleConversation =
     (Inl (Error ''OpenAI Assistant error: OpenAI Assistant API error: Request failed with status code 500''),
      [Request (axiosConfig exampleHandler POST ''/threads'' EmptyObject)])"
    by (simp add: createMessage_def createMessageTry_def startRun_def makeApiCall.simps Let_def
        brokenService_def serverError_def providerName_def exampleHandler_assistantId)
  from createMessage_error_wrapped [OF c] c show ?thesis by simp
qed

text \<open>
  C10: a pass of the poll loop makes a call to the submit-tool-outputs endpoint only if the
  run it fetched has status \<open>requires_action\<close> and carries a \<open>required_action\<close> payload; a
  pass whose fetched run carries none makes no such call, whatever the status and whatever
  other passes fetched. When the status is \<open>requires_action\<close> and the payload is absent, the
  pass raises nothing and the loop goes on with 1000 ms more on the clock: below the
  ceiling, it waits and fetches the run again. Every call to that endpoint in an invocation
  stems from such a pass: an invocation that made one has reached a pass that fetched a run
  with a payload. When every run the service returns is \<open>requires_action\<close> without payload,
  the invocation polls 300 times, calls the endpoint never and fails with the timeout error.
\<close>

theorem no_submission_without_required_action:
  "(submitCalls (snd (pollStep h ax thread run s tr)) \<noteq> submitCalls tr \<longrightarrow>
      (\<exists>fetched tr' action.
          makeApiCall h (axiosRun ax) GET (runEndpoint thread run) NoData 0
            (tr @ [Sleep pollInterval]) = (Inr fetched, tr') \<and>
          status fetched = ''requires_action'' \<and> required_action fetched = Some action)) \<and>
   (makeApiCall h (axiosRun ax) GET (runEndpoint thread run) NoData 0
      (tr @ [Sleep pollInterval]) = (Inr cur, tr1) \<and> required_action cur = None \<longrightarrow>
      submitCalls (snd (pollStep h ax thread run s tr)) = submitCalls tr) \<and>
   (makeApiCall h (axiosRun ax) GET (runEndpoint thread run) NoData 0
      (tr @ [Sleep pollInterval]) = (Inr cur, tr1) \<and>
    status cur = ''requires_action'' \<and> required_action cur = None \<longrightarrow>
      pollStep h ax thread run s tr =
        (Inr \<lparr> runStatus = ''requires_action'', currentRun = cur,
               elapsedTime = elapsedTime s + 1000 \<rparr>, tr1) \<and>
      submitCalls tr1 = submitCalls tr \<and>
      (runStatus s \<noteq> ''completed'' \<and> elapsedTime s + 1000 < 300000 \<longrightarrow>
         (\<exists>rest. snd (pollForCompletion h ax thread run s tr) =
            tr1 @ Sleep 1000 #
              Request (axiosConfig h GET (runEndpoint thread run) NoData) # rest))) \<and>
   (submitCalls (snd (createMessage h ax systemPrompt messages)) \<noteq> [] \<longrightarrow>
      (\<exists>thread' run' start s' tr' fetched tr'' action.
          startRun h ax systemPrompt messages [] = (Inr (thread', run'), start) \<and>
          pollReaches h ax thread' run'
            \<lparr> runStatus = status run', currentRun = run', elapsedTime = 0 \<rparr> start s' tr' \<and>
          runStatus s' \<noteq> ''completed'' \<and> elapsedTime s' < maxWaitTime \<and>
          makeApiCall h (axiosRun ax) GET (runEndpoint thread' run') NoData 0
            (tr' @ [Sleep pollInterval]) = (Inr fetched, tr'') \<and>
          status fetched = ''requires_action'' \<and> required_action fetched = Some action)) \<and>
   (assistantId h \<noteq> [] \<and>
    startRun h ax systemPrompt messages [] = (Inr (thread, run), tr0) \<and>
    (\<forall>tr. \<exists>r. axiosRun ax tr = Inr r \<and> status r = ''requires_action'' \<and>
              required_action r = None) \<longrightarrow>
      fst (createMessage h ax systemPrompt messages) =
        Inl (Error ''OpenAI Assistant error: Assistant run timeout'') \<and>
      polls (snd (createMessage h ax systemPrompt messages)) = 300 \<and>
      submitCalls (snd (createMessage h ax systemPrompt messages)) = [])"
proof (intro conjI impI)
  assume "submitCalls (snd (pollStep h ax thread run s tr)) \<noteq> submitCalls tr"
  then show "\<exists>fetched tr' action.
          makeApiCall h (axiosRun ax) GET (runEndpoint thread run) NoData 0
            (tr @ [Sleep pollInterval]) = (Inr fetched, tr') \<and>
          status fetched = ''requires_action'' \<and> required_action fetched = Some action"
    by (rule pollStep_submitCalls_unless)
next
  assume a: "makeApiCall h (axiosRun ax) GET (runEndpoint thread run) NoData 0
      (tr @ [Sleep pollInterval]) = (Inr cur, tr1) \<and> required_action cur = None"
  show "submitCalls (snd (pollStep h ax thread run s tr)) = submitCalls tr"
  proof (rule ccontr)
    assume "submitCalls (snd (pollStep h ax thread run s tr)) \<noteq> submitCalls tr"
    from pollStep_submitCalls_unless [OF this] a show False by auto
  qed
next
  assume a: "makeApiCall h (axiosRun ax) GET (runEndpoint thread run) NoData 0
      (tr @ [Sleep pollInterval]) = (Inr cur, tr1) \<and>
    status cur = ''requires_action'' \<and> required_action cur = None"
  then show st: "pollStep h ax thread run s tr =
        (Inr \<lparr> runStatus = ''requires_action'', currentRun = cur,
               elapsedTime = elapsedTime s + 1000 \<rparr>, tr1)"
    by (simp add: pollStep_def Let_def pollInterval_def)
  from a show "submitCalls tr1 = submitCalls tr"
    by (auto dest!: makeApiCall_submitCalls [OF _ isSubmit_GET])
  assume g: "runStatus s \<noteq> ''completed'' \<and> elapsedTime s + 1000 < 300000"
  let ?s' = "\<lparr> runStatus = ''requires_action'', currentRun = cur,
               elapsedTime = elapsedTime s + 1000 \<rparr>"
  from g st have "pollForCompletion h ax thread run s tr =
      pollForCompletion h ax thread run ?s' tr1"
    by (simp add: pollForCompletion_step maxWaitTime_def)
  moreover from g have "runStatus ?s' \<noteq> ''completed''" "elapsedTime ?s' < maxWaitTime"
    by (simp_all add: maxWaitTime_def)
  from pollForCompletion_resumes [OF this, of h ax thread run tr1]
  have "\<exists>rest. snd (pollForCompletion h ax thread run ?s' tr1) =
      tr1 @ Sleep 1000 # Request (axiosConfig h GET (runEndpoint thread run) NoData) # rest"
    by (simp add: pollInterval_def)
  ultimately show "\<exists>rest. snd (pollForCompletion h ax thread run s tr) =
            tr1 @ Sleep 1000 #
              Request (axiosConfig h GET (runEndpoint thread run) NoData) # rest"
    by simp
next
  assume "submitCalls (snd (createMessage h ax systemPrompt messages)) \<noteq> []"
  from createMessage_submitCalls_unless [OF this]
  show "\<exists>thread' run' start s' tr' fetched tr'' action.
          startRun h ax systemPrompt messages [] = (Inr (thread', run'), start) \<and>
          pollReaches h ax thread' run'
            \<lparr> runStatus = status run', currentRun = run', elapsedTime = 0 \<rparr> start s' tr' \<and>
          runStatus s' \<noteq> ''completed'' \<and> elapsedTime s' < maxWaitTime \<and>
          makeApiCall h (axiosRun ax) GET (runEndpoint thread' run') NoData 0
            (tr' @ [Sleep pollInterval]) = (Inr fetched, tr'') \<and>
          status fetched = ''requires_action'' \<and> required_action fetched = Some action" .
next
  assume a: "assistantId h \<noteq> [] \<and>
    startRun h ax systemPrompt messages [] = (Inr (thread, run), tr0) \<and>
    (\<forall>tr. \<exists>r. axiosRun ax tr = Inr r \<and> status r = ''requires_action'' \<and>
              required_action r = None)"
  have pend: "\<forall>tr. \<exists>r. axiosRun ax tr = Inr r \<and>
      (status r \<noteq> ''completed'' \<and> status r \<noteq> ''failed'' \<and> status r \<noteq> ''cancelled'' \<and>
       status r \<noteq> ''expired'' \<and> required_action r = None)"
  proof
    fix tr
    from a obtain r where "axiosRun ax tr = Inr r" "status r = ''requires_action''"
      "required_action r = None"
      by blast
    then show "\<exists>r. axiosRun ax tr = Inr r \<and>
      (status r \<noteq> ''completed'' \<and> status r \<noteq> ''failed'' \<and> status r \<noteq> ''cancelled'' \<and>
       status r \<noteq> ''expired'' \<and> required_action r = None)"
      by (intro exI [of _ r]) simp
  qed
  have none: "required_action r = None" if "axiosRun ax tra = Inr r" for tra r
  proof -
    from a obtain r' where "axiosRun ax tra = Inr r'" "required_action r' = None"
      by blast
    with that show ?thesis by simp
  qed
  from a have "\<exists>tra. axiosRun ax tra = Inr run"
    by (auto simp: startRun_def Let_def split: prod.splits sum.splits dest: makeApiCall_answer)
  then obtain tra where "axiosRun ax tra = Inr run" ..
  moreover from a obtain r where "axiosRun ax tra = Inr r" "status r = ''requires_action''"
    by blast
  ultimately have "status run = ''requires_action''"
    by simp
  then have "runStatus \<lparr> runStatus = status run, currentRun = run, elapsedTime = 0 \<rparr>
      \<noteq> ''completed''"
    by simp
  from pollForCompletion_pending [OF pend this]
  obtain s' tr' where l: "pollForCompletion h ax thread run
      \<lparr> runStatus = status run, currentRun = run, elapsedTime = 0 \<rparr> tr0 = (Inr s', tr')"
    and n: "runStatus s' \<noteq> ''completed''"
    by blast
  with a have "createMessageTry h ax systemPrompt messages [] =
      (Inl (Error ''Assistant run timeout''), tr')"
    by (simp add: createMessageTry_polling)
  with a have r: "createMessage h ax systemPrompt messages =
      (Inl (Error (providerName @ '' error: '' @ ''Assistant run timeout'')), tr')"
    by (simp add: createMessage_catch)
  then show "fst (createMessage h ax systemPrompt messages) =
        Inl (Error ''OpenAI Assistant error: Assistant run timeout'')"
    by (simp add: providerName_def)
  from a have p0: "polls tr0 = 0" by (auto dest: startRun_polls)
  from pollForCompletion_budget [OF l] n p0
  have "elapsedTime s' = pollInterval * polls tr'" "maxWaitTime \<le> elapsedTime s'"
    "elapsedTime s' \<le> maxWaitTime"
    by auto
  then have "polls tr' = 300" by (simp add: maxWaitTime_def pollInterval_def)
  with r show "polls (snd (createMessage h ax systemPrompt messages)) = 300" by simp
  show "submitCalls (snd (createMessage h ax systemPrompt messages)) = []"
  proof (rule ccontr)
    assume "submitCalls (snd (createMessage h ax systemPrompt messages)) \<noteq> []"
    from createMessage_submitCalls_unless [OF this]
    obtain thread' run' tr1' fetched tr2' action where
      "makeApiCall h (axiosRun ax) GET (runEndpoint thread' run') NoData 0
         (tr1' @ [Sleep pollInterval]) = (Inr fetched, tr2')"
      "required_action fetched = Some action"
      by blast
    with makeApiCall_answer [of h "axiosRun ax" GET "runEndpoint thread' run'" NoData 0
        "tr1' @ [Sleep pollInterval]" fetched tr2'] none
    show False by auto
  qed
qed

theorem no_submission_without_required_action_witness:
  "(let toolAx = scriptedService toolRun exampleListing;
        waitAx = scriptedService waitingRun exampleListing;
        run = exampleRun ''requires_action'';
        s0 = \<lparr> runStatus = ''requires_action'', currentRun = run, elapsedTime = 0 \<rparr>;
        fetch = Request (axiosConfig exampleHandler GET (runEndpoint exampleThread run) NoData)
    in (\<exists>fetched tr' action.
          makeApiCall exampleHandler (axiosRun toolAx) GET
            (runEndpoint exampleThread (exampleRun ''queued'')) NoData 0
            ([] @ [Sleep pollInterval]) = (Inr fetched, tr') \<and>
          status fetched = ''requires_action'' \<and> required_action fetched = Some action) \<and>
       pollStep exampleHandler waitAx exampleThread run s0 [] =
         (Inr \<lparr> runStatus = ''requires_action'', currentRun = run, elapsedTime = 1000 \<rparr>,
          [Sleep 1000, fetch]) \<and>
       submitCalls (snd (pollStep exampleHandler waitAx exampleThread run s0 [])) = [] \<and>
       (\<exists>rest. snd (pollForCompletion exampleHandler waitAx exampleThread run s0 []) =
                [Sleep 1000, fetch] @ Sleep 1000 # fetch # rest) \<and>
       (\<exists>thread' run' start s' tr' fetched tr'' action.
          startRun exampleHandler toolAx ''S'' exampleConversation [] =
            (Inr (thread', run'), start) \<and>
          pollReaches exampleHandler toolAx thread' run'
            \<lparr> runStatus = status run', currentRun = run', elapsedTime = 0 \<rparr> start s' tr' \<and>
          runStatus s' \<noteq> ''completed'' \<and> elapsedTime s' < maxWaitTime \<and>
          makeApiCall exampleHandler (axiosRun toolAx) GET (runEndpoint thread' run') NoData 0
            (tr' @ [Sleep pollInterval]) = (Inr fetched, tr'') \<and>
          status fetched = ''requires_action'' \<and> required_action fetched = Some action) \<and>
       fst (createMessage exampleHandler waitAx ''S'' exampleConversation) =
         Inl (Error ''OpenAI Assistant error: Assistant run timeout'') \<and>
       polls (snd (createMessage exampleHandler waitAx ''S'' exampleConversation)) = 300 \<and>
       submitCalls (snd (createMessage exampleHandler waitAx ''S'' exampleConversation)) = [])"
proof -
  let ?toolAx = "scriptedService toolRun exampleListing"
  let ?waitAx = "scriptedService waitingRun exampleListing"
  let ?run = "exampleRun ''requires_action''"
  let ?s0 = "\<lparr> runStatus = ''requires_action'', currentRun = ?run, elapsedTime = 0 \<rparr>"
  let ?q0 = "\<lparr> runStatus = ''queued'', currentRun = exampleRun ''queued'', elapsedTime = 0 \<rparr>"
  let ?fetch = "Request (axiosConfig exampleHandler GET (runEndpoint exampleThread ?run) NoData)"
  note tool = no_submission_without_required_action
    [of exampleHandler ?toolAx exampleThread "exampleRun ''queued''" ?q0 "[]" _ _
        "''S''" exampleConversation]
  note wait = no_submission_without_required_action
    [of exampleHandler ?waitAx exampleThread ?run ?s0 "[]" ?run "[Sleep 1000, ?fetch]"
        "''S''" exampleConversation
        "snd (startRun exampleHandler ?waitAx ''S'' exampleConversation [])"]
  have p: "submitCalls (snd (pollStep exampleHandler ?toolAx exampleThread
      (exampleRun ''queued'') ?q0 [])) \<noteq> submitCalls []"
    by (simp add: pollStep_def makeApiCall.simps Let_def scriptedService_def toolRun_def
        exampleRun_def pollInterval_def)
  from tool [THEN conjunct1] p
  have w1: "\<exists>fetched tr' action.
          makeApiCall exampleHandler (axiosRun ?toolAx) GET
            (runEndpoint exampleThread (exampleRun ''queued'')) NoData 0
            ([] @ [Sleep pollInterval]) = (Inr fetched, tr') \<and>
          status fetched = ''requires_action'' \<and> required_action fetched = Some action"
    by blast
  have c: "submitCalls (snd (createMessage exampleHandler ?toolAx ''S'' exampleConversation))
      \<noteq> []"
    by (simp add: createMessage_def createMessageTry_def startRun_def pollStep_def
        retrieveMessages_def makeApiCall.simps pollForCompletion.simps Let_def
        scriptedService_def toolRun_def exampleRun_def exampleThread_def exampleMessage_def
        exampleListing_def exampleHandler_def mkHandler_def pollInterval_def maxWaitTime_def
        isSubmit_def axiosConfig_def runEndpoint_def suffix_to_prefix)
  from tool [THEN conjunct2, THEN conjunct2, THEN conjunct2, THEN conjunct1] c
  have w4: "\<exists>thread' run' start s' tr' fetched tr'' action.
          startRun exampleHandler ?toolAx ''S'' exampleConversation [] =
            (Inr (thread', run'), start) \<and>
          pollReaches exampleHandler ?toolAx thread' run'
            \<lparr> runStatus = status run', currentRun = run', elapsedTime = 0 \<rparr> start s' tr' \<and>
          runStatus s' \<noteq> ''completed'' \<and> elapsedTime s' < maxWaitTime \<and>
          makeApiCall exampleHandler (axiosRun ?toolAx) GET (runEndpoint thread' run') NoData 0
            (tr' @ [Sleep pollInterval]) = (Inr fetched, tr'') \<and>
          status fetched = ''requires_action'' \<and> required_action fetched = Some action"
    by blast
  have f: "makeApiCall exampleHandler (axiosRun ?waitAx) GET (runEndpoint exampleThread ?run)
             NoData 0 ([] @ [Sleep pollInterval]) = (Inr ?run, [Sleep 1000, ?fetch])"
    by (simp add: makeApiCall.simps Let_def scriptedService_def pollInterval_def waitingRun_def)
  have st: "status ?run = ''requires_action''" "required_action ?run = None"
    by (simp_all add: exampleRun_def)
  have g: "runStatus ?s0 \<noteq> ''completed'' \<and> elapsedTime ?s0 + 1000 < 300000"
    by simp
  have w: "\<forall>tr. \<exists>r. axiosRun ?waitAx tr = Inr r \<and> status r = ''requires_action'' \<and>
      required_action r = None"
    by (simp add: scriptedService_def waitingRun_def exampleRun_def)
  have sr: "startRun exampleHandler ?waitAx ''S'' exampleConversation [] =
      (Inr (exampleThread, ?run),
       snd (startRun exampleHandler ?waitAx ''S'' exampleConversation []))"
    using startRun_scripted [of waitingRun exampleListing "''S''" exampleConversation]
    by (simp add: waitingRun_def)
  from wait [THEN conjunct2, THEN conjunct1] f st
  have w2: "submitCalls (snd (pollStep exampleHandler ?waitAx exampleThread ?run ?s0 [])) = []"
    by simp
  from wait [THEN conjunct2, THEN conjunct2, THEN conjunct1] f st g
  have w3: "pollStep exampleHandler ?waitAx exampleThread ?run ?s0 [] =
      (Inr \<lparr> runStatus = ''requires_action'', currentRun = ?run, elapsedTime = 1000 \<rparr>,
       [Sleep 1000, ?fetch])"
    and w3b: "\<exists>rest. snd (pollForCompletion exampleHandler ?waitAx exampleThread ?run ?s0 []) =
                [Sleep 1000, ?fetch] @ Sleep 1000 # ?fetch # rest"
    by simp_all
  from wait [THEN conjunct2, THEN conjunct2, THEN conjunct2, THEN conjunct2]
    exampleHandler_assistantId sr w
  have w5: "fst (createMessage exampleHandler ?waitAx ''S'' exampleConversation) =
         Inl (Error ''OpenAI Assistant error: Assistant run timeout'') \<and>
       polls (snd (createMessage exampleHandler ?waitAx ''S'' exampleConversation)) = 300 \<and>
       submitCalls (snd (createMessage exampleHandler ?waitAx ''S'' exampleConversation)) = []"
    by blast
  from w1 w2 w3 w3b w4 w5 show ?thesis unfolding Let_def by blast
qed

end
